theory Spec2Isabelle
  imports Main "HOL-Library.Sublist"
begin

section \<open>Python text primitives\<close>

text \<open>
  Python strings are modelled as \<^typ>\<open>string\<close>; a \<^typ>\<open>char\<close> stands for a code point
  below 256, and \<^term>\<open>length\<close> counts code points as Python's \<^verbatim>\<open>len\<close> does. The
  primitives below are \<^verbatim>\<open>str.isspace\<close>, \<^verbatim>\<open>str.strip\<close>, \<^verbatim>\<open>str.upper\<close>,
  \<^verbatim>\<open>str.replace\<close> (for a one-character pattern), \<^verbatim>\<open>sub in s\<close>, \<^verbatim>\<open>str.join\<close> and
  \<^verbatim>\<open>xml.sax.saxutils.escape\<close>. \<^verbatim>\<open>str.upper\<close> is modelled on ASCII letters; the
  characters from 128 on, whose upper-case forms Python takes from the Unicode tables
  (some of them outside this range), are left as they are.
\<close>

definition isspace :: "char \<Rightarrow> bool" where
  "isspace c =
     (let n = (of_char c :: nat)
      in (9 \<le> n \<and> n \<le> 13) \<or> (28 \<le> n \<and> n \<le> 32) \<or> n = 133 \<or> n = 160)"

definition strip :: "string \<Rightarrow> string" where
  "strip s = rev (dropWhile isspace (rev (dropWhile isspace s)))"

definition upper_char :: "char \<Rightarrow> char" where
  "upper_char c =
     (let n = (of_char c :: nat) in if 97 \<le> n \<and> n \<le> 122 then char_of (n - 32) else c)"

definition upper :: "string \<Rightarrow> string" where
  "upper s = map upper_char s"

definition replace_char :: "char \<Rightarrow> string \<Rightarrow> string \<Rightarrow> string" where
  "replace_char c r s = concat (map (\<lambda>x. if x = c then r else [x]) s)"

primrec py_in :: "string \<Rightarrow> string \<Rightarrow> bool" where
  "py_in sub [] = (sub = [])"
| "py_in sub (c # cs) = (prefix sub (c # cs) \<or> py_in sub cs)"

fun py_join :: "string \<Rightarrow> string list \<Rightarrow> string" where
  "py_join sep [] = []"
| "py_join sep [x] = x"
| "py_join sep (x # y # ys) = x @ sep @ py_join sep (y # ys)"

definition escape :: "string \<Rightarrow> string" where
  "escape d =
     replace_char (CHR ''<'') ''&lt;''
       (replace_char (CHR ''>'') ''&gt;''
          (replace_char (CHR ''&'') ''&amp;'' d))"

text \<open>The formatting of an optional string in an f-string: \<^verbatim>\<open>None\<close> prints as its name.\<close>

fun py_str :: "string option \<Rightarrow> string" where
  "py_str None = ''None''"
| "py_str (Some s) = s"

section \<open>Exceptions and integers\<close>

datatype error = IndexError | AttributeError | TypeError | ValueError

definition bindE :: "error + 'a \<Rightarrow> ('a \<Rightarrow> error + 'b) \<Rightarrow> error + 'b" where
  "bindE r f = (case r of Inl e \<Rightarrow> Inl e | Inr v \<Rightarrow> f v)"

text \<open>
  \<^verbatim>\<open>int(x)\<close> on a string: surrounding white space is skipped (the separators 28 to 31
  are white space for \<^verbatim>\<open>strip\<close> but not for \<^verbatim>\<open>int\<close>), then an optional sign, then
  decimal digits, where single underscores may stand between digits. Anything else
  raises \<^verbatim>\<open>ValueError\<close>, and \<^verbatim>\<open>int(None)\<close> raises \<^verbatim>\<open>TypeError\<close>. Python's integers
  are unbounded, so the result is an \<^typ>\<open>int\<close>. The interpreter's limit on the number
  of digits of a conversion between text and integer (4300 unless configured) is not
  modelled.
\<close>

definition int_space :: "char \<Rightarrow> bool" where
  "int_space c =
     (let n = (of_char c :: nat) in (9 \<le> n \<and> n \<le> 13) \<or> n = 32 \<or> n = 133 \<or> n = 160)"

definition is_digit :: "char \<Rightarrow> bool" where
  "is_digit c = (let n = (of_char c :: nat) in 48 \<le> n \<and> n \<le> 57)"

definition digit_val :: "char \<Rightarrow> nat" where
  "digit_val c = of_char c - 48"

fun digits_ok :: "string \<Rightarrow> bool" where
  "digits_ok [] = False"
| "digits_ok [c] = is_digit c"
| "digits_ok (c # d # cs) =
     (is_digit c \<and> (if d = CHR ''_'' then digits_ok cs else digits_ok (d # cs)))"

definition digits_value :: "string \<Rightarrow> nat" where
  "digits_value s = foldl (\<lambda>a c. 10 * a + digit_val c) 0 (filter is_digit s)"

definition py_int :: "string option \<Rightarrow> error + int" where
  "py_int x =
     (case x of
        None \<Rightarrow> Inl TypeError
      | Some s \<Rightarrow>
          (let t = rev (dropWhile int_space (rev (dropWhile int_space s)));
               neg = (t \<noteq> [] \<and> hd t = CHR ''-'');
               body = (if t \<noteq> [] \<and> (hd t = CHR ''-'' \<or> hd t = CHR ''+'') then tl t else t)
           in if digits_ok body
              then Inr (if neg then - int (digits_value body) else int (digits_value body))
              else Inl ValueError))"

function dec :: "nat \<Rightarrow> string" where
  "dec n = (if n < 10 then [char_of (48 + n)] else dec (n div 10) @ [char_of (48 + n mod 10)])"
  by pat_completeness auto
termination
  by (relation "measure id") auto

declare dec.simps [simp del]

definition py_str_int :: "int \<Rightarrow> string" where
  "py_str_int i = (if i < 0 then CHR ''-'' # dec (nat (- i)) else dec (nat i))"

section \<open>The data model\<close>

text \<open>
  The dataclasses of the program. A field is a \<^typ>\<open>string option\<close> where the extractor
  can store \<^verbatim>\<open>None\<close> in it (the value of a label that the report lacks), and a
  \<^typ>\<open>string\<close> where it always stores a string. The field names carry a prefix, since
  several classes share the names \<^verbatim>\<open>id\<close>, \<^verbatim>\<open>type\<close> and \<^verbatim>\<open>name\<close>.
\<close>

record ExternalSignature =
  es_id :: "string option"
  es_signature :: "string option"
  es_type :: "string option"

record ByteSequence =
  bs_id :: "string option"
  bs_pos :: string
  bs_min_off :: "string option"
  bs_max_off :: "string option"
  bs_endian :: "string option"
  bs_value :: string

record InternalSignature =
  is_id :: "string option"
  is_name :: "string option"
  is_byte_sequences :: "ByteSequence list"

record Priority =
  pr_type :: "string option"
  pr_id :: "string option"

record Format =
  f_id :: "string option"
  f_name :: string
  f_version :: string
  f_puid :: "string option"
  f_mime :: "string option"
  f_classification :: "string option"
  f_external_signatures :: "ExternalSignature list"
  f_internal_signatures :: "InternalSignature list"
  f_priorities :: "Priority list"

section \<open>Reports as trees\<close>

text \<open>
  A parsed report is a tree of \<^verbatim>\<open>xml.dom.minidom\<close> nodes. \<open>Element tag children\<close> is
  an element; \<open>Text s\<close> is a node whose \<^verbatim>\<open>nodeValue\<close> is the string \<open>s\<close> (a text node,
  a CDATA section or a comment). The document node is an element too: its name
  \<^verbatim>\<open>#document\<close> is no tag, and \<^verbatim>\<open>getElementsByTagName\<close> looks at the descendants of
  the node it is called on, in document order, never at the node itself.
\<close>

datatype node = Element string "node list" | Text string

definition document :: "node list \<Rightarrow> node" where
  "document children = Element ''#document'' children"

fun childNodes :: "node \<Rightarrow> node list" where
  "childNodes (Element t cs) = cs"
| "childNodes (Text s) = []"

fun nodeValue :: "node \<Rightarrow> string option" where
  "nodeValue (Element t cs) = None"
| "nodeValue (Text s) = Some s"

fun elements_by_tag :: "string \<Rightarrow> node list \<Rightarrow> node list" where
  "elements_by_tag tag [] = []"
| "elements_by_tag tag (Text s # ns) = elements_by_tag tag ns"
| "elements_by_tag tag (Element t cs # ns) =
     (if t = tag then [Element t cs] else []) @ elements_by_tag tag cs @ elements_by_tag tag ns"

definition getElementsByTagName :: "string \<Rightarrow> node \<Rightarrow> node list" where
  "getElementsByTagName tag n = elements_by_tag tag (childNodes n)"

text \<open>
  \<^verbatim>\<open>_get_node_value\<close>: the body of the \<^verbatim>\<open>try\<close> indexes the list of elements
  (\<^verbatim>\<open>IndexError\<close> when it is empty), takes the first child (\<^verbatim>\<open>None\<close> for an element
  without children) and strips its \<^verbatim>\<open>nodeValue\<close> (\<^verbatim>\<open>None\<close> for an element child); an
  attribute of \<^verbatim>\<open>None\<close> raises \<^verbatim>\<open>AttributeError\<close>. Only \<^verbatim>\<open>IndexError\<close> is caught.
\<close>

definition node_value_try :: "string \<Rightarrow> node \<Rightarrow> error + string option" where
  "node_value_try tag n =
     (case getElementsByTagName tag n of
        [] \<Rightarrow> Inl IndexError
      | e # _ \<Rightarrow>
          (case childNodes e of
             [] \<Rightarrow> Inl AttributeError
           | c # _ \<Rightarrow>
               (case nodeValue c of
                  None \<Rightarrow> Inl AttributeError
                | Some v \<Rightarrow> Inr (Some (strip v)))))"

definition get_node_value :: "string \<Rightarrow> node \<Rightarrow> error + string option" where
  "get_node_value tag n =
     (case node_value_try tag n of
        Inl e \<Rightarrow> (if e = IndexError then Inr None else Inl e)
      | Inr v \<Rightarrow> Inr v)"

section \<open>The record extractor\<close>

subsection \<open>Byte sequences\<close>

text \<open>
  \<^verbatim>\<open>PRONOM_REGEX_ALLOWED\<close> is a character class repeated once or more between the
  anchors, and \<^verbatim>\<open>re.fullmatch\<close> asks that it covers the whole string: the string is
  not empty and every character is in the class.
\<close>

definition allowed_char :: "char \<Rightarrow> bool" where
  "allowed_char c = (c \<in> set ''abcdefABCDEF0123456789*[]?!&|(){}:-'')"

definition fullmatch_allowed :: "string \<Rightarrow> bool" where
  "fullmatch_allowed s = (s \<noteq> [] \<and> list_all allowed_char s)"

text \<open>The tuple of tokens that the length check of \<^verbatim>\<open>get_bytes\<close> looks for.\<close>

definition pattern_tokens :: "string list" where
  "pattern_tokens =
     [''??'', ''('', '')'', ''|'', ''{'', ''}'', '':'', ''-'', ''['', '']'', ''*'']"

definition pre_process_signature :: "string \<Rightarrow> string" where
  "pre_process_signature item = replace_char (CHR '' '') [] (upper (strip item))"

text \<open>
  The three messages of \<^verbatim>\<open>get_bytes\<close>, all written with \<^verbatim>\<open>logger.error\<close>, each with
  the value it reports: \<^verbatim>\<open>signature '%s' is not valid\<close>,
  \<^verbatim>\<open>rejecting sig data: '%s' based on length\<close> and
  \<^verbatim>\<open>signature might not function properly: '%s'\<close>. A function that logs returns the
  messages of a run that raises nothing, in the order they were written.
\<close>

datatype log_record = NotValid string | RejectedLength string | MightNotFunction string

text \<open>
  The second half of the loop body of \<^verbatim>\<open>get_bytes\<close>, from \<^verbatim>\<open>re.fullmatch\<close> on. The
  result \<open>None\<close> is the \<^verbatim>\<open>continue\<close> of the length check; \<^verbatim>\<open>re.fullmatch\<close> raises
  \<^verbatim>\<open>TypeError\<close> on \<^verbatim>\<open>None\<close>.
\<close>

definition validate_sequence ::
  "string option \<Rightarrow> string \<Rightarrow> string option \<Rightarrow> string option \<Rightarrow> string option \<Rightarrow>
   string option \<Rightarrow> error + (ByteSequence option \<times> log_record list)" where
  "validate_sequence seq_id pos_type min_off max_off endian seq_value =
     (case seq_value of
        None \<Rightarrow> Inl TypeError
      | Some v \<Rightarrow>
          (let log1 = (if fullmatch_allowed v then [] else [NotValid v])
           in if filter (\<lambda>val. py_in val v) pattern_tokens = [] \<and> length v mod 2 \<noteq> 0
              then Inr (None, log1 @ [RejectedLength v])
              else
                (let v1 = pre_process_signature v;
                     log2 = (if py_in ''&'' v1 then [MightNotFunction v1] else []);
                     v2 = (if py_in ''&'' v1 then escape v1 else v1)
                 in Inr (Some \<lparr>bs_id = seq_id, bs_pos = pos_type, bs_min_off = min_off,
                                bs_max_off = max_off, bs_endian = endian, bs_value = v2\<rparr>,
                         log1 @ log2))))"

definition position_tag :: "string option \<Rightarrow> string" where
  "position_tag pos_type =
     (if pos_type = Some ''Absolute from BOF'' then ''BOFoffset''
      else if pos_type = Some ''Absolute from EOF'' then ''EOFoffset''
      else [])"

definition get_bytes_body :: "node \<Rightarrow> error + (ByteSequence option \<times> log_record list)" where
  "get_bytes_body byte_sequence =
     bindE (get_node_value ''ByteSequenceID'' byte_sequence) (\<lambda>seq_id.
     bindE (get_node_value ''PositionType'' byte_sequence) (\<lambda>pos_type.
     bindE (get_node_value ''Offset'' byte_sequence) (\<lambda>min_off.
     bindE (get_node_value ''MaxOffset'' byte_sequence) (\<lambda>max_off.
     bindE (get_node_value ''IndirectOffsetLocation'' byte_sequence) (\<lambda>_.
     bindE (get_node_value ''IndirectOffsetLength'' byte_sequence) (\<lambda>_.
     bindE (get_node_value ''Endianness'' byte_sequence) (\<lambda>endian.
     bindE (get_node_value ''ByteSequenceValue'' byte_sequence) (\<lambda>seq_value.
       validate_sequence seq_id (position_tag pos_type) min_off max_off endian
         seq_value))))))))"

fun get_bytes :: "node list \<Rightarrow> error + (ByteSequence list \<times> log_record list)" where
  "get_bytes [] = Inr ([], [])"
| "get_bytes (byte_sequence # rest) =
     bindE (get_bytes_body byte_sequence) (\<lambda>(b, lg).
     bindE (get_bytes rest) (\<lambda>(sequence_list, lgs).
       Inr ((case b of None \<Rightarrow> [] | Some x \<Rightarrow> [x]) @ sequence_list, lg @ lgs)))"

subsection \<open>Internal and external signatures, identifiers, priorities\<close>

text \<open>
  The loop body of \<^verbatim>\<open>get_internal\<close>. Its \<^verbatim>\<open>try\<close> covers the call of \<^verbatim>\<open>get_bytes\<close>,
  and its handler, for \<^verbatim>\<open>IndexError\<close> only, is the \<^verbatim>\<open>continue\<close> that skips the block
  (the result \<open>None\<close>).
\<close>

definition get_internal_body ::
  "node \<Rightarrow> error + (InternalSignature option \<times> log_record list)" where
  "get_internal_body internal =
     bindE (get_node_value ''SignatureID'' internal) (\<lambda>sig_id.
     bindE (get_node_value ''SignatureName'' internal) (\<lambda>sig_name.
     bindE (get_node_value ''SignatureNote'' internal) (\<lambda>_.
       (case get_bytes (getElementsByTagName ''ByteSequence'' internal) of
          Inl e \<Rightarrow> (if e = IndexError then Inr (None, []) else Inl e)
        | Inr (sequences, lg) \<Rightarrow>
            Inr (Some \<lparr>is_id = sig_id, is_name = sig_name, is_byte_sequences = sequences\<rparr>,
                 lg)))))"

fun get_internal :: "node list \<Rightarrow> error + (InternalSignature list \<times> log_record list)" where
  "get_internal [] = Inr ([], [])"
| "get_internal (internal # rest) =
     bindE (get_internal_body internal) (\<lambda>(s, lg).
     bindE (get_internal rest) (\<lambda>(internal_sigs, lgs).
       Inr ((case s of None \<Rightarrow> [] | Some x \<Rightarrow> [x]) @ internal_sigs, lg @ lgs)))"

definition get_external_body :: "node \<Rightarrow> error + ExternalSignature" where
  "get_external_body external =
     bindE (get_node_value ''ExternalSignatureID'' external) (\<lambda>sig_id.
     bindE (get_node_value ''Signature'' external) (\<lambda>sig.
     bindE (get_node_value ''SignatureType'' external) (\<lambda>sig_type.
       Inr \<lparr>es_id = sig_id, es_signature = sig, es_type = sig_type\<rparr>)))"

fun get_external :: "node list \<Rightarrow> error + ExternalSignature list" where
  "get_external [] = Inr []"
| "get_external (external # rest) =
     bindE (get_external_body external) (\<lambda>s.
     bindE (get_external rest) (\<lambda>external_signatures. Inr (s # external_signatures)))"

text \<open>\<^verbatim>\<open>get_identifiers\<close> keeps the loop's two variables: the pair \<open>(puid, mime)\<close>.\<close>

fun get_identifiers_loop ::
  "node list \<Rightarrow> string option \<times> string option \<Rightarrow> error + (string option \<times> string option)" where
  "get_identifiers_loop [] (puid, mime) = Inr (puid, mime)"
| "get_identifiers_loop (identifier # rest) (puid, mime) =
     bindE (get_node_value ''Identifier'' identifier) (\<lambda>identifier_value.
     bindE (get_node_value ''IdentifierType'' identifier) (\<lambda>identifier_type.
       get_identifiers_loop rest
         (if identifier_type = Some ''PUID'' then identifier_value else puid,
          if identifier_type = Some ''MIME'' then identifier_value else mime)))"

definition get_identifiers :: "node list \<Rightarrow> error + (string option \<times> string option)" where
  "get_identifiers identifiers = get_identifiers_loop identifiers (Some [], Some [])"

definition get_priorities_body :: "node \<Rightarrow> error + Priority option" where
  "get_priorities_body related =
     bindE (get_node_value ''RelationshipType'' related) (\<lambda>rel_type.
       if rel_type \<noteq> Some ''Has priority over'' then Inr None
       else
         bindE (get_node_value ''RelatedFormatID'' related) (\<lambda>rel_format_id.
         bindE (get_node_value ''RelatedFormatName'' related) (\<lambda>_.
         bindE (get_node_value ''RelatedFormatVersion'' related) (\<lambda>_.
           Inr (Some \<lparr>pr_type = rel_type, pr_id = rel_format_id\<rparr>)))))"

fun get_priorities :: "node list \<Rightarrow> error + Priority list" where
  "get_priorities [] = Inr []"
| "get_priorities (related # rest) =
     bindE (get_priorities_body related) (\<lambda>p.
     bindE (get_priorities rest) (\<lambda>priorities.
       Inr ((case p of None \<Rightarrow> [] | Some x \<Rightarrow> [x]) @ priorities)))"

subsection \<open>One report, and the list of reports\<close>

text \<open>
  \<^verbatim>\<open>escape\<close> on \<^verbatim>\<open>None\<close> calls \<^verbatim>\<open>None.replace\<close>, an \<^verbatim>\<open>AttributeError\<close>.
\<close>

definition escape_opt :: "string option \<Rightarrow> error + string" where
  "escape_opt x = (case x of None \<Rightarrow> Inl AttributeError | Some s \<Rightarrow> Inr (escape s))"

text \<open>
  The loop body of \<^verbatim>\<open>process_pronom\<close> for one parsed report; \<open>None\<close> is the
  \<^verbatim>\<open>continue\<close> for a report without signatures.
\<close>

definition process_report :: "node \<Rightarrow> error + (Format option \<times> log_record list)" where
  "process_report doc =
     bindE (get_node_value ''FormatID'' doc) (\<lambda>format_id.
     bindE (get_node_value ''FormatName'' doc) (\<lambda>format_name.
     bindE (get_node_value ''FormatVersion'' doc) (\<lambda>format_version.
     bindE (get_external (getElementsByTagName ''ExternalSignature'' doc)) (\<lambda>external_signatures.
     bindE (get_internal (getElementsByTagName ''InternalSignature'' doc)) (\<lambda>(internal_signatures, lg).
     bindE (get_identifiers (getElementsByTagName ''FileFormatIdentifier'' doc)) (\<lambda>(puid, mime).
       if external_signatures = [] \<and> internal_signatures = [] then Inr (None, lg)
       else
         bindE (get_node_value ''FormatTypes'' doc) (\<lambda>format_types.
         bindE (get_priorities (getElementsByTagName ''RelatedFormat'' doc)) (\<lambda>priorities.
         bindE (escape_opt format_name) (\<lambda>name.
         bindE (escape_opt format_version) (\<lambda>version.
           Inr (Some \<lparr>f_id = format_id, f_name = name, f_version = version, f_puid = puid,
                       f_mime = mime, f_classification = format_types,
                       f_external_signatures = external_signatures,
                       f_internal_signatures = internal_signatures,
                       f_priorities = priorities\<rparr>,
                lg)))))))))))"

text \<open>
  The loop of \<^verbatim>\<open>process_pronom\<close> over the reports. The reports are given parsed:
  opening and parsing the files is outside the model.
\<close>

fun collect_formats :: "node list \<Rightarrow> error + (Format list \<times> log_record list)" where
  "collect_formats [] = Inr ([], [])"
| "collect_formats (doc # rest) =
     bindE (process_report doc) (\<lambda>(f, lg).
     bindE (collect_formats rest) (\<lambda>(formats, lgs).
       Inr ((case f of None \<Rightarrow> [] | Some x \<Rightarrow> [x]) @ formats, lg @ lgs)))"

section \<open>The signature encoder and the document assembler\<close>

subsection \<open>Offsets\<close>

text \<open>
  The test \<^verbatim>\<open>x != "" and int(x) > 0\<close> of the two offset functions: \<^verbatim>\<open>int\<close> is only
  called when the field is not the empty string, and it raises on \<^verbatim>\<open>None\<close> and on
  text that is no number.
\<close>

definition present_positive :: "string option \<Rightarrow> error + bool" where
  "present_positive x = (if x \<noteq> Some [] then bindE (py_int x) (\<lambda>n. Inr (0 < n)) else Inr False)"

definition both_positive :: "ByteSequence \<Rightarrow> error + bool" where
  "both_positive item =
     bindE (present_positive (bs_min_off item)) (\<lambda>a.
       if a then present_positive (bs_max_off item) else Inr False)"

definition range_quantifier :: "ByteSequence \<Rightarrow> error + string" where
  "range_quantifier item =
     bindE (py_int (bs_min_off item)) (\<lambda>mn.
     bindE (py_int (bs_max_off item)) (\<lambda>mx.
       Inr (''{'' @ py_str (bs_min_off item) @ ''-'' @ py_str_int (mn + mx) @ ''}'')))"

definition calculate_variable_off_bof :: "ByteSequence \<Rightarrow> error + string" where
  "calculate_variable_off_bof item =
     bindE (both_positive item) (\<lambda>both.
       if both then bindE (range_quantifier item) (\<lambda>q. Inr (q @ bs_value item))
       else
         bindE (present_positive (bs_max_off item)) (\<lambda>mx.
           if mx then Inr (''{0-'' @ py_str (bs_max_off item) @ ''}'' @ bs_value item)
           else
             bindE (present_positive (bs_min_off item)) (\<lambda>mn.
               if mn then Inr (''{'' @ py_str (bs_min_off item) @ ''}'' @ bs_value item)
               else Inr (bs_value item))))"

definition calculate_variable_off_eof :: "ByteSequence \<Rightarrow> error + string" where
  "calculate_variable_off_eof item =
     bindE (both_positive item) (\<lambda>both.
       if both then bindE (range_quantifier item) (\<lambda>q. Inr (bs_value item @ q))
       else
         bindE (present_positive (bs_max_off item)) (\<lambda>mx.
           if mx then Inr (bs_value item @ ''{0-'' @ py_str (bs_max_off item) @ ''}'')
           else
             bindE (present_positive (bs_min_off item)) (\<lambda>mn.
               if mn then Inr (bs_value item @ ''{'' @ py_str (bs_min_off item) @ ''}'')
               else Inr (bs_value item))))"

subsection \<open>Byte sequences and internal signatures as markup\<close>

text \<open>The variable \<^verbatim>\<open>seq\<close> of the loop of \<^verbatim>\<open>create_one_to_many_byte_sequence\<close>.\<close>

definition encoded_sequence :: "ByteSequence \<Rightarrow> error + string" where
  "encoded_sequence item =
     (if prefix ''EOF'' (bs_pos item) then calculate_variable_off_eof item
      else if prefix ''BOF'' (bs_pos item) then calculate_variable_off_bof item
      else Inr (bs_value item))"

definition byte_sequence_tag :: "ByteSequence \<Rightarrow> string \<Rightarrow> string" where
  \<open>byte_sequence_tag item seq =
     ''<ByteSequence Reference="'' @ bs_pos item @ ''" Sequence="'' @ seq @
     ''" MinOffset="'' @ py_str (bs_min_off item) @
     ''" MaxOffset="'' @ py_str (bs_max_off item) @ ''"/>''\<close>

fun one_to_many_loop :: "ByteSequence list \<Rightarrow> string \<Rightarrow> error + string" where
  "one_to_many_loop [] byte_sequence = Inr byte_sequence"
| "one_to_many_loop (item # rest) byte_sequence =
     bindE (encoded_sequence item) (\<lambda>seq.
       one_to_many_loop rest
         (''\<newline>'' @ strip byte_sequence @ ''\<newline>    '' @ byte_sequence_tag item seq @
          ''\<newline>        ''))"

definition create_one_to_many_byte_sequence :: "ByteSequence list \<Rightarrow> error + string" where
  "create_one_to_many_byte_sequence byte_sequences =
     bindE (one_to_many_loop byte_sequences []) (\<lambda>byte_sequence. Inr (strip byte_sequence))"

fun many_to_one_loop :: "InternalSignature list \<Rightarrow> string \<Rightarrow> error + string" where
  "many_to_one_loop [] internal_signature = Inr internal_signature"
| \<open>many_to_one_loop (internal # rest) internal_signature =
     bindE (create_one_to_many_byte_sequence (is_byte_sequences internal)) (\<lambda>bs.
       many_to_one_loop rest
         (''\<newline>'' @ internal_signature @ ''<InternalSignature ID="'' @ py_str (is_id internal) @
          ''" Specificity="Specific">\<newline>    '' @ bs @
          ''\<newline></InternalSignature>\<newline>        ''))\<close>

definition create_many_to_one_byte_sequence :: "InternalSignature list \<Rightarrow> error + string" where
  "create_many_to_one_byte_sequence internal_signatures =
     bindE (many_to_one_loop internal_signatures [])
       (\<lambda>internal_signature. Inr (strip internal_signature))"

subsection \<open>File formats as markup\<close>

definition internal_sigs :: "Format \<Rightarrow> string list" where
  "internal_sigs fmt =
     map (\<lambda>sig. ''<InternalSignatureID>'' @ py_str (is_id sig) @ ''</InternalSignatureID>'')
       (f_internal_signatures fmt)"

definition external_sigs :: "Format \<Rightarrow> string list" where
  "external_sigs fmt =
     map (\<lambda>sig. ''<Extension>'' @ py_str (es_signature sig) @ ''</Extension>'')
       (filter (\<lambda>sig. es_type sig = Some ''File extension'') (f_external_signatures fmt))"

definition priorities :: "Format \<Rightarrow> string list" where
  "priorities fmt =
     map (\<lambda>priority. ''<HasPriorityOverFileFormatID>'' @ py_str (pr_id priority) @
                      ''</HasPriorityOverFileFormatID>'')
       (f_priorities fmt)"

definition create_file_format_collection :: "Format \<Rightarrow> string" where
  \<open>create_file_format_collection fmt =
     strip
       (''\<newline><FileFormat ID="'' @ py_str (f_id fmt) @ ''" Name="'' @ f_name fmt @
        ''" PUID="'' @ py_str (f_puid fmt) @ ''" Version="'' @ f_version fmt @
        ''" MIMEType="'' @ py_str (f_mime fmt) @ ''">\<newline>    '' @
        strip (py_join [] (internal_sigs fmt)) @ ''\<newline>    '' @
        strip (py_join [] (external_sigs fmt)) @ ''\<newline>    '' @
        strip (py_join [] (priorities fmt)) @ ''\<newline></FileFormat>\<newline>    '')\<close>

subsection \<open>The document\<close>

text \<open>
  The loop of \<^verbatim>\<open>process_formats_and_save\<close> with its two lists, and the text that the
  function hands to \<^verbatim>\<open>xml.dom.minidom.parseString\<close>: the template, stripped and with
  its line feeds removed. The time stamp is a parameter. The file that is written is
  the pretty-printed parse of this text, so it is a function of this text alone.
\<close>

fun formats_loop ::
  "Format list \<Rightarrow> string list \<Rightarrow> string list \<Rightarrow> error + (string list \<times> string list)" where
  "formats_loop [] isc ffc = Inr (isc, ffc)"
| "formats_loop (fmt # rest) isc ffc =
     (if f_internal_signatures fmt \<noteq> []
      then bindE (create_many_to_one_byte_sequence (f_internal_signatures fmt)) (\<lambda>s.
             formats_loop rest (isc @ [s]) (ffc @ [create_file_format_collection fmt]))
      else formats_loop rest isc (ffc @ [create_file_format_collection fmt]))"

definition droid_template :: "string \<Rightarrow> string \<Rightarrow> string \<Rightarrow> string" where
  \<open>droid_template now isc ffc =
     ''\<newline><?xml version="1.0" encoding="UTF-8"?>\<newline><FFSignatureFile xmlns='' @ [CHR 0x27] @
     ''http://www.nationalarchives.gov.uk/pronom/SignatureFile'' @ [CHR 0x27] @
     '' Version='' @ [CHR 0x27] @ ''1'' @ [CHR 0x27] @ '' DateCreated='' @ [CHR 0x27] @ now @
     [CHR 0x27] @ ''>\<newline>    <InternalSignatureCollection>\<newline>        '' @ isc @
     ''\<newline>    </InternalSignatureCollection>\<newline>    <FileFormatCollection>\<newline>        '' @ ffc @
     ''\<newline>    </FileFormatCollection>\<newline></FFSignatureFile>\<newline>    ''\<close>

definition process_formats_and_save :: "string \<Rightarrow> Format list \<Rightarrow> error + string" where
  "process_formats_and_save now formats =
     bindE (formats_loop formats [] []) (\<lambda>(isc, ffc).
       Inr (replace_char (CHR ''\<newline>'') []
              (strip (droid_template now (strip (py_join [] isc)) (strip (py_join [] ffc))))))"

definition process_pronom :: "string \<Rightarrow> node list \<Rightarrow> error + (string \<times> log_record list)" where
  "process_pronom now report_list =
     bindE (collect_formats report_list) (\<lambda>(formats, lg).
     bindE (process_formats_and_save now formats) (\<lambda>text. Inr (text, lg)))"

section \<open>Notions of the specification\<close>

text \<open>
  The specification speaks of optional bounds that are numbers. In a byte sequence a
  bound is text: the empty string when the bound is absent (what the offset functions
  test for), its decimal numeral otherwise.
\<close>

definition bound_field :: "nat option \<Rightarrow> string option" where
  "bound_field b = Some (case b of None \<Rightarrow> [] | Some n \<Rightarrow> dec n)"

text \<open>
  The quantifier in the specification's words: both bounds present and positive, else
  only the maximum present and positive, else only the minimum, else nothing.
\<close>

definition spec_quantifier :: "nat option \<Rightarrow> nat option \<Rightarrow> string" where
  "spec_quantifier mn mx =
     (case (mn, mx) of
        (Some a, Some b) \<Rightarrow>
          (if 0 < a \<and> 0 < b then ''{'' @ dec a @ ''-'' @ dec (a + b) @ ''}''
           else if 0 < b then ''{0-'' @ dec b @ ''}''
           else if 0 < a then ''{'' @ dec a @ ''}''
           else [])
      | (None, Some b) \<Rightarrow> (if 0 < b then ''{0-'' @ dec b @ ''}'' else [])
      | (Some a, None) \<Rightarrow> (if 0 < a then ''{'' @ dec a @ ''}'' else [])
      | (None, None) \<Rightarrow> [])"

text \<open>
  The length check in the specification's words: a value is rejected when it has none
  of the pattern-control characters and its length is odd.
\<close>

definition spec_control_chars :: string where
  "spec_control_chars = ''*[]?!&|(){}:-''"

definition spec_rejected_for_length :: "string \<Rightarrow> bool" where
  "spec_rejected_for_length v =
     (list_all (\<lambda>c. c \<notin> set spec_control_chars) v \<and> odd (length v))"

text \<open>
  A report has signatures when the two lists that \<^verbatim>\<open>process_pronom\<close> extracts from it
  are not both empty: the negation of the test before its \<^verbatim>\<open>continue\<close>.
\<close>

definition report_has_signatures :: "node \<Rightarrow> bool" where
  "report_has_signatures doc =
     (case get_external (getElementsByTagName ''ExternalSignature'' doc) of
        Inl _ \<Rightarrow> False
      | Inr external_signatures \<Rightarrow>
          (case get_internal (getElementsByTagName ''InternalSignature'' doc) of
             Inl _ \<Rightarrow> False
           | Inr (internal_signatures, _) \<Rightarrow>
               external_signatures \<noteq> [] \<or> internal_signatures \<noteq> []))"

text \<open>The relationship label of a related-format block, and the format it refers to.\<close>

definition has_priority_over :: "node \<Rightarrow> bool" where
  "has_priority_over related =
     (get_node_value ''RelationshipType'' related = Inr (Some ''Has priority over''))"

definition related_format_id :: "node \<Rightarrow> string option" where
  "related_format_id related =
     (case get_node_value ''RelatedFormatID'' related of Inl _ \<Rightarrow> None | Inr x \<Rightarrow> x)"

text \<open>
  What one pass of each assembly loop adds: the element of a byte sequence, and the
  element of an internal signature around the elements of its byte sequences. The
  text of the document is named too.
\<close>

definition byte_sequence_element :: "ByteSequence \<Rightarrow> error + string" where
  "byte_sequence_element item =
     bindE (encoded_sequence item) (\<lambda>seq. Inr (byte_sequence_tag item seq))"

definition internal_signature_element :: "InternalSignature \<Rightarrow> error + string" where
  \<open>internal_signature_element internal =
     bindE (create_one_to_many_byte_sequence (is_byte_sequences internal)) (\<lambda>bs.
       Inr (''<InternalSignature ID="'' @ py_str (is_id internal) @
            ''" Specificity="Specific">\<newline>    '' @ bs @ ''\<newline></InternalSignature>''))\<close>

definition document_text :: "string \<Rightarrow> string list \<Rightarrow> string list \<Rightarrow> string" where
  "document_text now isc ffc =
     replace_char (CHR ''\<newline>'') []
       (strip (droid_template now (strip (py_join [] isc)) (strip (py_join [] ffc))))"

text \<open>A text is solid when it is not empty and neither starts nor ends with white space.\<close>

definition solid :: "string \<Rightarrow> bool" where
  "solid s = (s \<noteq> [] \<and> \<not> isspace (hd s) \<and> \<not> isspace (last s))"

text \<open>
  A byte sequence, an internal signature and a format with the fields that are never
  rendered put to \<^verbatim>\<open>None\<close>: the endianness and the classification.
\<close>

definition erase_sequence :: "ByteSequence \<Rightarrow> ByteSequence" where
  "erase_sequence b = b\<lparr>bs_endian := None\<rparr>"

definition erase_signature :: "InternalSignature \<Rightarrow> InternalSignature" where
  "erase_signature s = s\<lparr>is_byte_sequences := map erase_sequence (is_byte_sequences s)\<rparr>"

definition erase_format :: "Format \<Rightarrow> Format" where
  "erase_format f =
     f\<lparr>f_classification := None,
       f_internal_signatures := map erase_signature (f_internal_signatures f)\<rparr>"

text \<open>
  A report with the values of its \<^verbatim>\<open>Endianness\<close> and \<^verbatim>\<open>FormatTypes\<close> elements
  blanked: where the first child of such an element is text, the text is replaced by
  the empty string. Two reports differ only in these values when they are equal
  after blanking.
\<close>

definition unrendered_tag :: "string \<Rightarrow> bool" where
  "unrendered_tag t = (t = ''Endianness'' \<or> t = ''FormatTypes'')"

definition blank_first :: "string \<Rightarrow> node list \<Rightarrow> node list" where
  "blank_first t cs =
     (case cs of
        Text s # rest \<Rightarrow> (if unrendered_tag t then Text [] # rest else cs)
      | _ \<Rightarrow> cs)"

fun blank :: "node \<Rightarrow> node" where
  "blank (Text s) = Text s"
| "blank (Element t cs) = Element t (blank_first t (map blank cs))"

section \<open>Sample reports\<close>

definition leaf :: "string \<Rightarrow> string \<Rightarrow> node" where
  "leaf tag s = Element tag [Text s]"

definition sample_byte_sequence :: "string \<Rightarrow> node" where
  "sample_byte_sequence v =
     Element ''ByteSequence''
       [leaf ''ByteSequenceID'' ''315'', leaf ''PositionType'' ''Absolute from BOF'',
        leaf ''Offset'' ''0'', leaf ''MaxOffset'' ''\<newline>'',
        leaf ''Endianness'' ''Little-endian'', leaf ''ByteSequenceValue'' v]"

definition sample_internal :: "string \<Rightarrow> node" where
  "sample_internal v =
     Element ''InternalSignature''
       [leaf ''SignatureID'' ''3'', leaf ''SignatureName'' ''Development Signature'',
        sample_byte_sequence v]"

definition report_internal :: "string \<Rightarrow> node" where
  "report_internal v =
     document [Element ''FileFormat''
       [leaf ''FormatID'' ''1'', leaf ''FormatName'' ''Development Signature'',
        leaf ''FormatVersion'' ''1.0'', leaf ''FormatTypes'' ''Text (Structured)'',
        sample_internal v]]"

definition report_external :: node where
  "report_external =
     document [Element ''FileFormat''
       [leaf ''FormatID'' ''49'', leaf ''FormatName'' ''Adobe Illustrator'',
        leaf ''FormatVersion'' ''1.0 / 1.1'',
        Element ''ExternalSignature''
          [leaf ''ExternalSignatureID'' ''861'', leaf ''Signature'' ''ai'',
           leaf ''SignatureType'' ''File extension''],
        Element ''RelatedFormat''
          [leaf ''RelationshipType'' ''Has lower priority than'',
           leaf ''RelatedFormatID'' ''613''],
        Element ''RelatedFormat''
          [leaf ''RelationshipType'' ''Has priority over'',
           leaf ''RelatedFormatID'' ''86'']]]"


text \<open>A report whose byte sequence has no \<^verbatim>\<open>ByteSequenceValue\<close>.\<close>

definition report_no_value :: node where
  "report_no_value =
     document [Element ''FileFormat''
       [leaf ''FormatID'' ''1'', leaf ''FormatName'' ''Development Signature'',
        leaf ''FormatVersion'' ''1.0'',
        Element ''InternalSignature''
          [leaf ''SignatureID'' ''3'',
           Element ''ByteSequence''
             [leaf ''ByteSequenceID'' ''315'',
              leaf ''PositionType'' ''Absolute from BOF'']]]]"

text \<open>A report with a signature and no \<^verbatim>\<open>FormatName\<close>.\<close>

definition report_no_name :: node where
  "report_no_name =
     document [Element ''FileFormat''
       [leaf ''FormatID'' ''1'', leaf ''FormatVersion'' ''1.0'', sample_internal ''04'']]"

text \<open>The sample report with another endianness and another classification.\<close>

definition report_internal_other :: node where
  "report_internal_other =
     document [Element ''FileFormat''
       [leaf ''FormatID'' ''1'', leaf ''FormatName'' ''Development Signature'',
        leaf ''FormatVersion'' ''1.0'', leaf ''FormatTypes'' ''Image (Raster)'',
        Element ''InternalSignature''
          [leaf ''SignatureID'' ''3'', leaf ''SignatureName'' ''Development Signature'',
           Element ''ByteSequence''
             [leaf ''ByteSequenceID'' ''315'', leaf ''PositionType'' ''Absolute from BOF'',
              leaf ''Offset'' ''0'', leaf ''MaxOffset'' ''\<newline>'',
              leaf ''Endianness'' ''Big-endian'', leaf ''ByteSequenceValue'' ''04'']]]]"

section \<open>Sample records\<close>

definition sample_bof :: "string option \<Rightarrow> ByteSequence" where
  "sample_bof e =
     \<lparr>bs_id = Some ''315'', bs_pos = ''BOFoffset'', bs_min_off = Some ''0'',
      bs_max_off = Some [], bs_endian = e, bs_value = ''04''\<rparr>"

definition sample_eof :: "string option \<Rightarrow> ByteSequence" where
  "sample_eof e =
     \<lparr>bs_id = Some ''316'', bs_pos = ''EOFoffset'', bs_min_off = Some [],
      bs_max_off = Some ''20'', bs_endian = e, bs_value = ''FF''\<rparr>"

definition sample_signatures :: "string option \<Rightarrow> InternalSignature list" where
  "sample_signatures e =
     [\<lparr>is_id = Some ''3'', is_name = Some ''first'',
       is_byte_sequences = [sample_bof e, sample_eof e]\<rparr>,
      \<lparr>is_id = Some ''4'', is_name = None, is_byte_sequences = [sample_bof e]\<rparr>]"

definition sample_formats :: "string option \<Rightarrow> string option \<Rightarrow> Format list" where
  "sample_formats c e =
     [\<lparr>f_id = Some ''1'', f_name = ''Development Signature'', f_version = ''1.0'',
       f_puid = Some ''dev/1'', f_mime = Some ''application/octet-stream'',
       f_classification = c, f_external_signatures = [],
       f_internal_signatures = sample_signatures e, f_priorities = []\<rparr>,
      \<lparr>f_id = Some ''49'', f_name = ''Adobe Illustrator'', f_version = ''1.0 / 1.1'',
       f_puid = Some ''x-fmt/20'', f_mime = Some ''application/postscript'',
       f_classification = c,
       f_external_signatures =
         [\<lparr>es_id = Some ''861'', es_signature = Some ''ai'',
           es_type = Some ''File extension''\<rparr>],
       f_internal_signatures = [],
       f_priorities = [\<lparr>pr_type = Some ''Has priority over'', pr_id = Some ''86''\<rparr>]\<rparr>]"

section \<open>Properties\<close>

subsection \<open>Exceptions\<close>

lemma bindE_Inr [simp]: "bindE (Inr v) f = f v"
  by (simp add: bindE_def)

lemma bindE_Inl [simp]: "bindE (Inl e) f = Inl e"
  by (simp add: bindE_def)

lemma bindE_eq_Inr: "(bindE r f = Inr y) = (\<exists>v. r = Inr v \<and> f v = Inr y)"
  by (cases r) simp_all

lemma bindE_eq_Inl: "(bindE r f = Inl e) = (r = Inl e \<or> (\<exists>v. r = Inr v \<and> f v = Inl e))"
  by (cases r) simp_all


subsection \<open>Decimal numerals\<close>

lemma digit_char_is_digit: "n < 10 \<Longrightarrow> is_digit (char_of (48 + (n::nat)))"
  by (simp add: is_digit_def)

lemma digit_char_val: "n < 10 \<Longrightarrow> digit_val (char_of (48 + n)) = n"
  by (simp add: digit_val_def)

lemma digit_not_space: "is_digit c \<Longrightarrow> \<not> int_space c"
  by (auto simp add: int_space_def is_digit_def Let_def)

lemma digit_not_sign: "is_digit c \<Longrightarrow> c \<noteq> CHR ''-'' \<and> c \<noteq> CHR ''+'' \<and> c \<noteq> CHR ''_''"
  by (auto simp add: is_digit_def)

lemma dec_digits: "dec n \<noteq> [] \<and> list_all is_digit (dec n)"
proof (induction n rule: dec.induct)
  case (1 n)
  show ?case
  proof (cases "n < 10")
    case True
    then show ?thesis
      by (subst dec.simps, subst (2) dec.simps) (simp add: digit_char_is_digit)
  next
    case False
    with 1 show ?thesis
      by (subst dec.simps, subst (2) dec.simps) (simp add: digit_char_is_digit)
  qed
qed

lemma digits_ok_all: "s \<noteq> [] \<Longrightarrow> list_all is_digit s \<Longrightarrow> digits_ok s"
  by (induction s rule: digits_ok.induct) (auto dest: digit_not_sign)

lemma digits_value_snoc:
  "is_digit c \<Longrightarrow> digits_value (s @ [c]) = 10 * digits_value s + digit_val c"
  by (simp add: digits_value_def)

lemma digits_value_dec: "digits_value (dec n) = n"
proof (induction n rule: dec.induct)
  case (1 n)
  show ?case
  proof (cases "n < 10")
    case True
    then show ?thesis
      by (subst dec.simps) (simp add: digits_value_def digit_char_is_digit digit_char_val)
  next
    case False
    with 1 have "digits_value (dec (n div 10)) = n div 10" by simp
    with False show ?thesis
      by (subst dec.simps) (simp add: digits_value_snoc digit_char_is_digit digit_char_val)
  qed
qed

lemma dropWhile_id: "xs \<noteq> [] \<Longrightarrow> \<not> P (hd xs) \<Longrightarrow> dropWhile P xs = xs"
  by (cases xs) auto

text \<open>Reading back a printed number gives the number.\<close>

lemma py_int_dec: "py_int (Some (dec n)) = Inr (int n)"
proof -
  have ne: "dec n \<noteq> []" and dg: "list_all is_digit (dec n)"
    using dec_digits by auto
  from ne dg have h: "is_digit (hd (dec n))" and l: "is_digit (last (dec n))"
    by (auto simp add: list_all_iff)
  have d1: "dropWhile int_space (dec n) = dec n"
    using ne h by (simp add: dropWhile_id digit_not_space)
  have d2: "dropWhile int_space (rev (dec n)) = rev (dec n)"
    using ne l by (simp add: dropWhile_id digit_not_space hd_rev)
  from h have s: "hd (dec n) \<noteq> CHR ''-''" "hd (dec n) \<noteq> CHR ''+''"
    using digit_not_sign by auto
  show ?thesis
    by (simp add: py_int_def d1 d2 s ne digits_ok_all dg digits_value_dec)
qed

lemma py_str_int_nat: "py_str_int (int a + int b) = dec (a + b)"
  by (simp add: py_str_int_def nat_add_distrib flip: of_nat_add)

lemma dec_examples:
  "dec 10 = ''10''" "dec 5 = ''5''" "dec 15 = ''15''" "dec 20 = ''20''" "dec 3 = ''3''"
  by (simp_all add: dec.simps char_of_def bit_Suc_0_iff)

subsection \<open>Offset encoding\<close>

lemma present_positive_bound:
  "present_positive (bound_field b) = Inr (case b of None \<Rightarrow> False | Some n \<Rightarrow> 0 < n)"
  using dec_digits
  by (cases b) (simp_all add: present_positive_def bound_field_def py_int_dec bindE_def)

lemma range_quantifier_bound:
  "range_quantifier \<lparr>bs_id = i, bs_pos = p, bs_min_off = bound_field (Some a),
       bs_max_off = bound_field (Some b), bs_endian = e, bs_value = v\<rparr>
     = Inr (''{'' @ dec a @ ''-'' @ dec (a + b) @ ''}'')"
  by (simp add: range_quantifier_def bound_field_def py_int_dec bindE_def py_str_int_nat)

lemma bof_bound:
  "calculate_variable_off_bof \<lparr>bs_id = i, bs_pos = p, bs_min_off = bound_field mn,
       bs_max_off = bound_field mx, bs_endian = e, bs_value = v\<rparr>
     = Inr (spec_quantifier mn mx @ v)"
  by (cases mn; cases mx)
     (simp_all add: calculate_variable_off_bof_def both_positive_def present_positive_bound
        range_quantifier_bound bindE_def spec_quantifier_def, simp_all add: bound_field_def)

lemma eof_bound:
  "calculate_variable_off_eof \<lparr>bs_id = i, bs_pos = p, bs_min_off = bound_field mn,
       bs_max_off = bound_field mx, bs_endian = e, bs_value = v\<rparr>
     = Inr (v @ spec_quantifier mn mx)"
  by (cases mn; cases mx)
     (simp_all add: calculate_variable_off_eof_def both_positive_def present_positive_bound
        range_quantifier_bound bindE_def spec_quantifier_def, simp_all add: bound_field_def)

text \<open>
  Claim C1. The encoded pattern of a byte sequence depends on its anchor and its two
  optional bounds only: with the anchor at the beginning of the file it is the value
  with the specification's quantifier in front, with the anchor at the end of the file
  it is the value with the same quantifier behind. The quantifier is \<open>{min-(min+max)}\<close>
  when both bounds are present and positive, else \<open>{0-max}\<close> when the maximum is, else
  \<open>{min}\<close> when the minimum is, else empty.
\<close>

theorem offset_encoding:
  "encoded_sequence \<lparr>bs_id = i, bs_pos = ''BOFoffset'', bs_min_off = bound_field mn,
       bs_max_off = bound_field mx, bs_endian = e, bs_value = v\<rparr>
     = Inr (spec_quantifier mn mx @ v)
   \<and> encoded_sequence \<lparr>bs_id = i, bs_pos = ''EOFoffset'', bs_min_off = bound_field mn,
       bs_max_off = bound_field mx, bs_endian = e, bs_value = v\<rparr>
     = Inr (v @ spec_quantifier mn mx)"
  by (simp add: encoded_sequence_def bof_bound eof_bound)

theorem offset_encoding_witness:
  "encoded_sequence \<lparr>bs_id = None, bs_pos = ''BOFoffset'', bs_min_off = Some ''10'',
       bs_max_off = Some ''5'', bs_endian = None, bs_value = ''AB''\<rparr> = Inr ''{10-15}AB''
   \<and> encoded_sequence \<lparr>bs_id = None, bs_pos = ''EOFoffset'', bs_min_off = Some [],
       bs_max_off = Some ''20'', bs_endian = None, bs_value = ''AB''\<rparr> = Inr ''AB{0-20}''"
  using offset_encoding [of None "Some 10" "Some 5" None "''AB''"]
        offset_encoding [of None None "Some 20" None "''AB''"]
  by (simp add: bound_field_def spec_quantifier_def dec_examples)

text \<open>
  A bound that is \<^verbatim>\<open>None\<close>, the value of a label that the report lacks, is no text:
  the test against the empty string lets it through and \<^verbatim>\<open>int\<close> raises.
\<close>

lemma missing_offset_raises:
  "encoded_sequence \<lparr>bs_id = None, bs_pos = ''BOFoffset'', bs_min_off = None,
       bs_max_off = Some ''20'', bs_endian = None, bs_value = ''AB''\<rparr> = Inl TypeError"
  by code_simp

subsection \<open>Validation of a byte-sequence value\<close>

lemma py_in_single: "py_in [c] s = (c \<in> set s)"
  by (induction s) auto

lemma no_token_iff:
  "(filter (\<lambda>val. py_in val v) pattern_tokens = []) =
     (\<not> py_in ''??'' v \<and> set v \<inter> set ''()|{}:-[]*'' = {})"
  by (auto simp add: pattern_tokens_def py_in_single)




text \<open>The value with the disallowed characters reaches the document.\<close>

lemma disallowed_value_emitted:
  \<open>py_in ''Sequence="ZZ"''
     (fst (projr (process_pronom ''2024-09-18T12:46:55Z'' [report_internal ''zz''])))\<close>
  by code_simp

text \<open>
  Claim C4, as the specification states it, fails: the value \<open>41?\<close> has a pattern-control
  character, a single question mark, and is rejected for its odd length all the same.
\<close>

theorem length_check_counterexample:
  "validate_sequence None ''BOFoffset'' None None None (Some ''41?'') =
     Inr (None, [RejectedLength ''41?''])
   \<and> \<not> spec_rejected_for_length ''41?''"
  by code_simp

text \<open>
  Claim C4, amended. A value is rejected by the length check exactly when it has no
  two question marks in a row, none of the characters \<open>( ) | { } : - [ ] *\<close>, and an odd
  length. A value that is not rejected is accepted with its text trimmed, in upper case
  and without spaces (and escaped when that text has an ampersand).
\<close>

theorem length_check:
  "\<exists>b lg. validate_sequence i p mn mx e (Some v) = Inr (b, lg)
     \<and> (b = None) = (\<not> py_in ''??'' v \<and> set v \<inter> set ''()|{}:-[]*'' = {} \<and> odd (length v))
     \<and> (b = None \<or>
          b = Some \<lparr>bs_id = i, bs_pos = p, bs_min_off = mn, bs_max_off = mx, bs_endian = e,
                     bs_value = (if py_in ''&'' (pre_process_signature v)
                                 then escape (pre_process_signature v)
                                 else pre_process_signature v)\<rparr>)"
proof -
  have t: "(\<not> py_in ''??'' v \<and> set v \<inter> set ''()|{}:-[]*'' = {} \<and> odd (length v)) =
      (filter (\<lambda>val. py_in val v) pattern_tokens = [] \<and> length v mod 2 \<noteq> 0)"
    by (simp only: no_token_iff odd_iff_mod_2_eq_one conj_assoc) simp
  show ?thesis
    unfolding t by (simp add: validate_sequence_def Let_def)
qed

lemma length_check_examples:
  "validate_sequence None ''BOFoffset'' None None None (Some ''41F'') =
     Inr (None, [RejectedLength ''41F''])"
  "validate_sequence None ''BOFoffset'' None None None (Some ''41FA'') =
     Inr (Some \<lparr>bs_id = None, bs_pos = ''BOFoffset'', bs_min_off = None, bs_max_off = None,
                bs_endian = None, bs_value = ''41FA''\<rparr>, [])"
  "validate_sequence None ''BOFoffset'' None None None (Some ''4f??1'') =
     Inr (Some \<lparr>bs_id = None, bs_pos = ''BOFoffset'', bs_min_off = None, bs_max_off = None,
                bs_endian = None, bs_value = ''4F??1''\<rparr>, [])"
  by code_simp+

theorem length_check_witness:
  "validate_sequence None ''BOFoffset'' None None None (Some ''41F'') =
     Inr (None, [RejectedLength ''41F''])
   \<and> validate_sequence None ''BOFoffset'' None None None (Some ''41FA'') =
     Inr (Some \<lparr>bs_id = None, bs_pos = ''BOFoffset'', bs_min_off = None, bs_max_off = None,
                bs_endian = None, bs_value = ''41FA''\<rparr>, [])
   \<and> validate_sequence None ''BOFoffset'' None None None (Some ''4f??1'') =
     Inr (Some \<lparr>bs_id = None, bs_pos = ''BOFoffset'', bs_min_off = None, bs_max_off = None,
                bs_endian = None, bs_value = ''4F??1''\<rparr>, [])"
  using length_check [of None "''BOFoffset''" None None None "''41F''"]
        length_check [of None "''BOFoffset''" None None None "''41FA''"]
        length_check_examples
  by simp

text \<open>
  The amendment is one way only: a value that the specification's wording rejects is
  rejected by the code too, since each token is made of pattern-control characters.
\<close>

lemma spec_rejection_is_rejection:
  assumes "spec_rejected_for_length v"
  shows "\<exists>lg. validate_sequence i p mn mx e (Some v) = Inr (None, lg)"
proof -
  from assms have c: "\<forall>c\<in>set v. c \<notin> set spec_control_chars" and o: "odd (length v)"
    by (simp_all add: spec_rejected_for_length_def list_all_iff)
  have q: "\<not> py_in ''??'' v"
  proof
    assume "py_in ''??'' v"
    then have "CHR ''?'' \<in> set v"
      by (induction v) (auto simp add: prefix_def)
    with c show False by (auto simp add: spec_control_chars_def)
  qed
  from c have "set v \<inter> set ''()|{}:-[]*'' = {}"
    by (auto simp add: spec_control_chars_def)
  with q have "filter (\<lambda>val. py_in val v) pattern_tokens = []"
    by (simp only: no_token_iff) simp
  with o show ?thesis
    by (simp add: validate_sequence_def Let_def odd_iff_mod_2_eq_one)
qed

text \<open>
  Claim C9, as the specification states it, fails: the normalised form of \<open>4&1\<close> has an
  ampersand, and the value is dropped by the length check, neither escaped nor
  reported as a signature that might not function.
\<close>

theorem ampersand_counterexample:
  "py_in ''&'' (pre_process_signature ''4&1'')
   \<and> validate_sequence None ''BOFoffset'' None None None (Some ''4&1'') =
     Inr (None, [RejectedLength ''4&1''])"
  by code_simp

text \<open>
  Claim C9, amended. A value that passes the length check and whose normalised form
  has an ampersand is accepted with that form escaped, and the message that the
  signature might not function properly is logged; nothing is raised and the value is
  not reported as rejected.
\<close>

theorem ampersand_escaped:
  "py_in ''&'' (pre_process_signature v) \<Longrightarrow>
   \<not> (filter (\<lambda>val. py_in val v) pattern_tokens = [] \<and> length v mod 2 \<noteq> 0) \<Longrightarrow>
     \<exists>lg. validate_sequence i p mn mx e (Some v) =
        Inr (Some \<lparr>bs_id = i, bs_pos = p, bs_min_off = mn, bs_max_off = mx, bs_endian = e,
                   bs_value = escape (pre_process_signature v)\<rparr>, lg)
        \<and> MightNotFunction (pre_process_signature v) \<in> set lg
        \<and> RejectedLength v \<notin> set lg"
  by (auto simp add: validate_sequence_def Let_def)

lemma ampersand_example:
  "validate_sequence None ''BOFoffset'' None None None (Some ''[&01]'') =
     Inr (Some \<lparr>bs_id = None, bs_pos = ''BOFoffset'', bs_min_off = None, bs_max_off = None,
                bs_endian = None, bs_value = ''[&amp;01]''\<rparr>, [MightNotFunction ''[&01]''])"
  by code_simp

theorem ampersand_escaped_witness:
  "py_in ''&'' (pre_process_signature ''[&01]'')
   \<and> \<not> (filter (\<lambda>val. py_in val ''[&01]'') pattern_tokens = [] \<and> length ''[&01]'' mod 2 \<noteq> 0)
   \<and> validate_sequence None ''BOFoffset'' None None None (Some ''[&01]'') =
     Inr (Some \<lparr>bs_id = None, bs_pos = ''BOFoffset'', bs_min_off = None, bs_max_off = None,
                bs_endian = None, bs_value = ''[&amp;01]''\<rparr>, [MightNotFunction ''[&01]''])"
proof -
  have h1: "py_in ''&'' (pre_process_signature ''[&01]'')" by code_simp
  have h2: "\<not> (filter (\<lambda>val. py_in val ''[&01]'') pattern_tokens = []
              \<and> length ''[&01]'' mod 2 \<noteq> 0)" by code_simp
  from ampersand_escaped [OF h1 h2, of None "''BOFoffset''" None None None]
    ampersand_example h1 h2
  show ?thesis by blast
qed

subsection \<open>Extraction\<close>

lemma get_node_value_error: "get_node_value tag n = Inl e \<Longrightarrow> e = AttributeError"
  by (auto simp add: get_node_value_def node_value_try_def
      split: list.splits option.splits sum.splits if_splits)

lemma validate_sequence_error:
  "validate_sequence i p mn mx en v = Inl e \<Longrightarrow> e = TypeError"
  by (auto simp add: validate_sequence_def Let_def split: option.splits if_splits)

lemma get_bytes_body_error: "get_bytes_body n = Inl e \<Longrightarrow> e \<noteq> IndexError"
  by (auto simp add: get_bytes_body_def bindE_eq_Inl
      dest!: get_node_value_error validate_sequence_error)

lemma get_bytes_error: "get_bytes ns = Inl e \<Longrightarrow> e \<noteq> IndexError"
proof (induction ns)
  case Nil
  then show ?case by simp
next
  case (Cons n ns)
  then show ?case
    by (auto simp add: bindE_eq_Inl split: prod.splits dest: get_bytes_body_error)
qed

lemma get_internal_body_Some:
  assumes "get_internal_body internal = Inr (r, lg)"
  shows "\<exists>sig_id sig_name sequences.
           get_bytes (getElementsByTagName ''ByteSequence'' internal) = Inr (sequences, lg)
           \<and> get_node_value ''SignatureID'' internal = Inr sig_id
           \<and> get_node_value ''SignatureName'' internal = Inr sig_name
           \<and> r = Some \<lparr>is_id = sig_id, is_name = sig_name, is_byte_sequences = sequences\<rparr>"
proof -
  from assms obtain sig_id sig_name where
    i: "get_node_value ''SignatureID'' internal = Inr sig_id" and
    n: "get_node_value ''SignatureName'' internal = Inr sig_name" and
    c: "(case get_bytes (getElementsByTagName ''ByteSequence'' internal) of
           Inl e \<Rightarrow> (if e = IndexError then Inr (None, []) else Inl e)
         | Inr (sequences, lg) \<Rightarrow>
             Inr (Some \<lparr>is_id = sig_id, is_name = sig_name, is_byte_sequences = sequences\<rparr>,
                  lg)) = Inr (r, lg)"
    unfolding get_internal_body_def bindE_eq_Inr by blast
  show ?thesis
  proof (cases "get_bytes (getElementsByTagName ''ByteSequence'' internal)")
    case (Inl e)
    with get_bytes_error have "e \<noteq> IndexError" by blast
    with c Inl show ?thesis by simp
  next
    case (Inr x)
    with c i n show ?thesis by (cases x) auto
  qed
qed

text \<open>
  Claim C2. The code does not drop an internal-signature block: when
  \<^verbatim>\<open>get_internal\<close> returns, every block has given one internal signature, in order,
  and its byte sequences are the ones that \<^verbatim>\<open>get_bytes\<close> accepted, which may be none
  at all. (\<^verbatim>\<open>get_bytes\<close> never raises the \<^verbatim>\<open>IndexError\<close> that the handler in
  \<^verbatim>\<open>get_internal\<close> waits for.)
\<close>

theorem internal_signature_never_dropped:
  "get_internal blocks = Inr (sigs, lg) \<Longrightarrow>
     length sigs = length blocks
     \<and> list_all2 (\<lambda>internal s. \<exists>l. get_bytes (getElementsByTagName ''ByteSequence'' internal)
                                     = Inr (is_byte_sequences s, l)) blocks sigs"
proof (induction blocks arbitrary: sigs lg)
  case Nil
  then show ?case by simp
next
  case (Cons b blocks)
  then show ?case
    by (auto simp add: bindE_eq_Inr split: prod.splits dest!: get_internal_body_Some)
qed

lemma empty_internal_signature_kept:
  "get_internal [sample_internal ''41F''] =
     Inr ([\<lparr>is_id = Some ''3'', is_name = Some ''Development Signature'',
             is_byte_sequences = []\<rparr>], [RejectedLength ''41F''])"
  by code_simp

theorem internal_signature_never_dropped_witness:
  "get_internal [sample_internal ''41F''] =
     Inr ([\<lparr>is_id = Some ''3'', is_name = Some ''Development Signature'',
             is_byte_sequences = []\<rparr>], [RejectedLength ''41F''])
   \<and> length [\<lparr>is_id = Some ''3'', is_name = Some ''Development Signature'',
               is_byte_sequences = []\<rparr>] = length [sample_internal ''41F'']"
  using internal_signature_never_dropped [OF empty_internal_signature_kept]
    empty_internal_signature_kept
  by simp

text \<open>The block without byte sequences reaches the document, and its format refers to it.\<close>

lemma empty_internal_signature_rendered:
  \<open>py_in ''<InternalSignature ID="3" Specificity="Specific">    </InternalSignature>''
     (fst (projr (process_pronom ''2024-09-18T12:46:55Z'' [report_internal ''41F''])))
   \<and> py_in ''<InternalSignatureID>3</InternalSignatureID>''
     (fst (projr (process_pronom ''2024-09-18T12:46:55Z'' [report_internal ''41F''])))\<close>
  by code_simp

text \<open>
  Claim C5. A label that the report lacks has the value \<^verbatim>\<open>None\<close>, but the record does
  not survive it everywhere: for a byte sequence without \<^verbatim>\<open>ByteSequenceValue\<close> the
  extraction of the report raises \<^verbatim>\<open>TypeError\<close>.
\<close>

theorem missing_value_raises:
  "get_node_value ''ByteSequenceValue''
     (Element ''ByteSequence''
        [leaf ''ByteSequenceID'' ''315'', leaf ''PositionType'' ''Absolute from BOF''])
     = Inr None
   \<and> process_report report_no_value = Inl TypeError"
  by code_simp

text \<open>A format with a signature and no name: \<^verbatim>\<open>escape\<close> raises on \<^verbatim>\<open>None\<close>.\<close>

lemma missing_name_raises:
  "get_node_value ''FormatName'' report_no_name = Inr None
   \<and> process_report report_no_name = Inl AttributeError"
  by code_simp

lemma process_report_kept:
  assumes "process_report doc = Inr (r, lg)"
  shows "(r = None) = (\<not> report_has_signatures doc)
         \<and> (\<forall>f. r = Some f \<longrightarrow>
               get_external (getElementsByTagName ''ExternalSignature'' doc)
                 = Inr (f_external_signatures f)
               \<and> get_internal (getElementsByTagName ''InternalSignature'' doc)
                 = Inr (f_internal_signatures f, lg)
               \<and> get_priorities (getElementsByTagName ''RelatedFormat'' doc)
                 = Inr (f_priorities f))"
proof -
  from assms obtain fid fname fver ext ints l puid mime where
    e: "get_external (getElementsByTagName ''ExternalSignature'' doc) = Inr ext" and
    i: "get_internal (getElementsByTagName ''InternalSignature'' doc) = Inr (ints, l)" and
    c: "(if ext = [] \<and> ints = [] then Inr (None, l)
         else
           bindE (get_node_value ''FormatTypes'' doc) (\<lambda>format_types.
           bindE (get_priorities (getElementsByTagName ''RelatedFormat'' doc)) (\<lambda>priorities.
           bindE (escape_opt fname) (\<lambda>name.
           bindE (escape_opt fver) (\<lambda>version.
             Inr (Some \<lparr>f_id = fid, f_name = name, f_version = version, f_puid = puid,
                         f_mime = mime, f_classification = format_types,
                         f_external_signatures = ext,
                         f_internal_signatures = ints,
                         f_priorities = priorities\<rparr>,
                  l)))))) = Inr (r, lg)"
    by (auto simp add: process_report_def bindE_eq_Inr)
  show ?thesis
  proof (cases "ext = [] \<and> ints = []")
    case True
    with c e i show ?thesis by (auto simp add: report_has_signatures_def)
  next
    case False
    with c e i show ?thesis
      by (auto simp add: report_has_signatures_def bindE_eq_Inr)
  qed
qed



lemma get_priorities_body_result:
  "get_priorities_body related = Inr p \<Longrightarrow>
     p = (if has_priority_over related
          then Some \<lparr>pr_type = Some ''Has priority over'', pr_id = related_format_id related\<rparr>
          else None)"
  by (auto simp add: get_priorities_body_def has_priority_over_def related_format_id_def
      bindE_eq_Inr split: if_splits)

lemma get_priorities_filter:
  "get_priorities relationships = Inr ps \<Longrightarrow>
     ps = map (\<lambda>r. \<lparr>pr_type = Some ''Has priority over'', pr_id = related_format_id r\<rparr>)
            (filter has_priority_over relationships)"
proof (induction relationships arbitrary: ps)
  case Nil
  then show ?case by simp
next
  case (Cons r rs)
  from Cons.prems obtain p qs where
    b: "get_priorities_body r = Inr p" and
    q: "get_priorities rs = Inr qs" and
    e: "ps = (case p of None \<Rightarrow> [] | Some x \<Rightarrow> [x]) @ qs"
    by (auto simp add: bindE_eq_Inr)
  from get_priorities_body_result [OF b] Cons.IH [OF q] e show ?case by simp
qed





text \<open>
  Claim C7. The priorities of an extracted format are the related-format blocks of its
  report whose relationship label is \<open>Has priority over\<close>, in order, and no others; the
  priority references of its file-format entry are made from exactly these.
\<close>

theorem only_priority_over_retained:
  "process_report doc = Inr (Some fmt, lg) \<Longrightarrow>
     f_priorities fmt =
       map (\<lambda>r. \<lparr>pr_type = Some ''Has priority over'', pr_id = related_format_id r\<rparr>)
         (filter has_priority_over (getElementsByTagName ''RelatedFormat'' doc))
     \<and> priorities fmt =
       map (\<lambda>r. ''<HasPriorityOverFileFormatID>'' @ py_str (related_format_id r) @
                ''</HasPriorityOverFileFormatID>'')
         (filter has_priority_over (getElementsByTagName ''RelatedFormat'' doc))"
proof -
  assume a: "process_report doc = Inr (Some fmt, lg)"
  from process_report_kept [OF a] have
    "get_priorities (getElementsByTagName ''RelatedFormat'' doc) = Inr (f_priorities fmt)"
    by simp
  from get_priorities_filter [OF this] have
    p: "f_priorities fmt =
       map (\<lambda>r. \<lparr>pr_type = Some ''Has priority over'', pr_id = related_format_id r\<rparr>)
         (filter has_priority_over (getElementsByTagName ''RelatedFormat'' doc))" .
  have "priorities fmt =
       map (\<lambda>priority. ''<HasPriorityOverFileFormatID>'' @ py_str (pr_id priority) @
                      ''</HasPriorityOverFileFormatID>'')
         (map (\<lambda>r. \<lparr>pr_type = Some ''Has priority over'', pr_id = related_format_id r\<rparr>)
         (filter has_priority_over (getElementsByTagName ''RelatedFormat'' doc)))"
    unfolding priorities_def by (subst p) (rule refl)
  with p show ?thesis by (simp add: comp_def)
qed

lemma sample_priorities:
  "process_report report_external =
     Inr (Some \<lparr>f_id = Some ''49'', f_name = ''Adobe Illustrator'', f_version = ''1.0 / 1.1'',
                f_puid = Some [], f_mime = Some [], f_classification = None,
                f_external_signatures =
                  [\<lparr>es_id = Some ''861'', es_signature = Some ''ai'',
                    es_type = Some ''File extension''\<rparr>],
                f_internal_signatures = [],
                f_priorities = [\<lparr>pr_type = Some ''Has priority over'', pr_id = Some ''86''\<rparr>]\<rparr>,
          [])"
  "map has_priority_over (getElementsByTagName ''RelatedFormat'' report_external)
     = [False, True]"
  by code_simp+

theorem only_priority_over_retained_witness:
  "process_report report_external =
     Inr (Some \<lparr>f_id = Some ''49'', f_name = ''Adobe Illustrator'', f_version = ''1.0 / 1.1'',
                f_puid = Some [], f_mime = Some [], f_classification = None,
                f_external_signatures =
                  [\<lparr>es_id = Some ''861'', es_signature = Some ''ai'',
                    es_type = Some ''File extension''\<rparr>],
                f_internal_signatures = [],
                f_priorities = [\<lparr>pr_type = Some ''Has priority over'', pr_id = Some ''86''\<rparr>]\<rparr>,
          [])
   \<and> map has_priority_over (getElementsByTagName ''RelatedFormat'' report_external)
     = [False, True]
   \<and> length (filter has_priority_over (getElementsByTagName ''RelatedFormat'' report_external))
     = 1"
proof -
  from only_priority_over_retained [OF sample_priorities(1)] have
    "[\<lparr>pr_type = Some ''Has priority over'', pr_id = Some ''86''\<rparr>] =
       map (\<lambda>r. \<lparr>pr_type = Some ''Has priority over'', pr_id = related_format_id r\<rparr>)
         (filter has_priority_over (getElementsByTagName ''RelatedFormat'' report_external))"
    by simp
  then have
    "length [\<lparr>pr_type = Some ''Has priority over'', pr_id = Some ''86''\<rparr>] =
       length (map (\<lambda>r. \<lparr>pr_type = Some ''Has priority over'', pr_id = related_format_id r\<rparr>)
         (filter has_priority_over (getElementsByTagName ''RelatedFormat'' report_external)))"
    by (rule arg_cong)
  then have
    "length (filter has_priority_over (getElementsByTagName ''RelatedFormat'' report_external))
       = 1"
    by simp
  with sample_priorities show ?thesis by simp
qed

subsection \<open>Assembly\<close>

lemma dropWhile_all: "list_all P xs \<Longrightarrow> dropWhile P (xs @ ys) = dropWhile P ys"
  by (induction xs) simp_all

lemma strip_wrap:
  assumes "solid s" "list_all isspace pre" "list_all isspace post"
  shows "strip (pre @ s @ post) = s"
proof -
  from assms(1) have ne: "s \<noteq> []" and h: "\<not> isspace (hd s)" and l: "\<not> isspace (last s)"
    by (auto simp add: solid_def)
  from assms(3) have q: "list_all isspace (rev post)" by (simp add: list_all_iff)
  have "dropWhile isspace (pre @ s @ post) = dropWhile isspace (s @ post)"
    using assms(2) by (rule dropWhile_all)
  also have "\<dots> = s @ post"
    using ne h by (intro dropWhile_id) simp_all
  finally have a: "dropWhile isspace (pre @ s @ post) = s @ post" .
  have "dropWhile isspace (rev post @ rev s) = dropWhile isspace (rev s)"
    using q by (rule dropWhile_all)
  also have "\<dots> = rev s"
    using ne l by (intro dropWhile_id) (simp_all add: hd_rev)
  finally have b: "dropWhile isspace (rev post @ rev s) = rev s" .
  show ?thesis by (simp add: strip_def a b)
qed

lemma strip_solid: "solid s \<Longrightarrow> strip s = s"
  using strip_wrap [of s "[]" "[]"] by simp

lemma dropWhile_all_Nil: "list_all P xs \<Longrightarrow> dropWhile P xs = []"
  by (induction xs) simp_all

lemma strip_blank: "list_all isspace s \<Longrightarrow> strip s = []"
  by (simp add: strip_def dropWhile_all_Nil)

lemma solid_append: "solid a \<Longrightarrow> solid b \<Longrightarrow> solid (a @ m @ b)"
  by (simp add: solid_def)

lemma py_join_snoc: "xs \<noteq> [] \<Longrightarrow> py_join sep (xs @ [e]) = py_join sep xs @ sep @ e"
  by (induction sep xs rule: py_join.induct) auto

lemma py_join_solid: "xs \<noteq> [] \<Longrightarrow> list_all solid xs \<Longrightarrow> solid (py_join sep xs)"
proof (induction sep xs rule: py_join.induct)
  case (3 sep x y ys)
  then have "solid x" "solid (py_join sep (y # ys))" by simp_all
  then show ?case using solid_append by simp
qed simp_all

lemma py_join_empty: "py_join [] xs = concat xs"
  by (induction "[] :: string" xs rule: py_join.induct) auto

lemma isspace_lf [simp]: "isspace (CHR ''\<newline>'')" "isspace (CHR '' '')"
  by (simp_all add: isspace_def)

lemma not_isspace_angle [simp]: "\<not> isspace (CHR ''<'')" "\<not> isspace (CHR ''>'')"
  by (simp_all add: isspace_def)

lemma byte_sequence_tag_solid: "solid (byte_sequence_tag item seq)"
  by (simp add: solid_def byte_sequence_tag_def)

lemma byte_sequence_element_solid: "byte_sequence_element item = Inr e \<Longrightarrow> solid e"
  by (auto simp add: byte_sequence_element_def bindE_eq_Inr byte_sequence_tag_solid)

lemma strip_step_first:
  assumes "solid e"
  shows "strip (''\<newline>'' @ [] @ ''\<newline>    '' @ e @ ''\<newline>        '') = e"
proof -
  have "strip (''\<newline>\<newline>    '' @ e @ ''\<newline>        '') = e"
    using assms by (rule strip_wrap) simp_all
  then show ?thesis by simp
qed

lemma strip_step_next:
  assumes "solid j" "solid e"
  shows "strip (''\<newline>'' @ j @ ''\<newline>    '' @ e @ ''\<newline>        '') = j @ ''\<newline>    '' @ e"
proof -
  from assms have "solid (j @ ''\<newline>    '' @ e)" by (rule solid_append)
  then have "strip (''\<newline>'' @ (j @ ''\<newline>    '' @ e) @ ''\<newline>        '') = j @ ''\<newline>    '' @ e"
    by (rule strip_wrap) simp_all
  then show ?thesis by simp
qed

lemma strip_step:
  assumes "solid e" "strip acc = py_join ''\<newline>    '' done" "list_all solid done"
  shows "strip (''\<newline>'' @ strip acc @ ''\<newline>    '' @ e @ ''\<newline>        '')
           = py_join ''\<newline>    '' (done @ [e])"
proof (cases "done = []")
  case True
  with assms(2) have "strip acc = []" by simp
  with strip_step_first [OF assms(1)] True show ?thesis by simp
next
  case False
  with assms(3) have "solid (py_join ''\<newline>    '' done)" by (simp add: py_join_solid)
  from strip_step_next [OF this assms(1)] assms(2) False show ?thesis
    by (simp add: py_join_snoc)
qed

lemma one_to_many_loop_closed:
  "map byte_sequence_element items = map Inr es \<Longrightarrow>
   strip acc = py_join ''\<newline>    '' done \<Longrightarrow> list_all solid done \<Longrightarrow>
     \<exists>acc'. one_to_many_loop items acc = Inr acc'
        \<and> strip acc' = py_join ''\<newline>    '' (done @ es)"
proof (induction items arbitrary: es acc "done")
  case Nil
  then show ?case by simp
next
  case (Cons item items)
  from Cons.prems(1) obtain e es' where
    es: "es = e # es'" and e: "byte_sequence_element item = Inr e" and
    r: "map byte_sequence_element items = map Inr es'"
    by (cases es) auto
  from e obtain seq where
    q: "encoded_sequence item = Inr seq" and t: "e = byte_sequence_tag item seq"
    by (auto simp add: byte_sequence_element_def bindE_eq_Inr)
  from e have se: "solid e" by (rule byte_sequence_element_solid)
  from Cons.prems(3) se have d: "list_all solid (done @ [e])" by simp
  from Cons.IH [OF r strip_step [OF se Cons.prems(2) Cons.prems(3)] d]
  obtain acc' where
    "one_to_many_loop items
       (''\<newline>'' @ strip acc @ ''\<newline>    '' @ e @ ''\<newline>        '') = Inr acc'"
    "strip acc' = py_join ''\<newline>    '' ((done @ [e]) @ es')"
    by blast
  with es q t show ?case by simp
qed

lemma create_one_to_many_closed:
  assumes "map byte_sequence_element items = map Inr es"
  shows "create_one_to_many_byte_sequence items = Inr (py_join ''\<newline>    '' es)"
proof -
  have "strip [] = py_join ''\<newline>    '' []" by (simp add: strip_def)
  from one_to_many_loop_closed [OF assms this] show ?thesis
    by (auto simp add: create_one_to_many_byte_sequence_def)
qed

lemma internal_signature_element_solid: "internal_signature_element s = Inr e \<Longrightarrow> solid e"
  by (auto simp add: internal_signature_element_def bindE_eq_Inr solid_def)

lemma many_to_one_loop_closed:
  "map internal_signature_element sigs = map Inr es \<Longrightarrow>
     many_to_one_loop sigs acc =
       Inr (replicate (length es) (CHR ''\<newline>'') @ acc @
            concat (map (\<lambda>e. e @ ''\<newline>        '') es))"
proof (induction sigs arbitrary: es acc)
  case Nil
  then show ?case by simp
next
  case (Cons s sigs)
  from Cons.prems obtain e es' where
    es: "es = e # es'" and e: "internal_signature_element s = Inr e" and
    r: "map internal_signature_element sigs = map Inr es'"
    by (cases es) auto
  from e obtain bs where
    b: "create_one_to_many_byte_sequence (is_byte_sequences s) = Inr bs" and
    t: \<open>e = ''<InternalSignature ID="'' @ py_str (is_id s) @
            ''" Specificity="Specific">\<newline>    '' @ bs @ ''\<newline></InternalSignature>''\<close>
    by (auto simp add: internal_signature_element_def bindE_eq_Inr)
  have n: "replicate (length es') (CHR ''\<newline>'') @ ''\<newline>'' @ acc
             = replicate (length es) (CHR ''\<newline>'') @ acc"
    using es by (simp add: replicate_append_same)
  have "many_to_one_loop (s # sigs) acc =
          many_to_one_loop sigs (''\<newline>'' @ acc @ e @ ''\<newline>        '')"
    using b t by simp
  also have "\<dots> = Inr (replicate (length es') (CHR ''\<newline>'') @
                     (''\<newline>'' @ acc @ e @ ''\<newline>        '') @
                     concat (map (\<lambda>e. e @ ''\<newline>        '') es'))"
    by (rule Cons.IH [OF r])
  also have "\<dots> = Inr (replicate (length es) (CHR ''\<newline>'') @ acc @
                     concat (map (\<lambda>e. e @ ''\<newline>        '') es))"
    using n es by (simp del: replicate.simps)
  finally show ?case .
qed

lemma concat_tail:
  "es \<noteq> [] \<Longrightarrow> concat (map (\<lambda>e. e @ sep) es) = py_join sep es @ sep"
  by (induction sep es rule: py_join.induct) auto

lemma create_many_to_one_closed:
  assumes "map internal_signature_element sigs = map Inr es"
  shows "create_many_to_one_byte_sequence sigs = Inr (py_join ''\<newline>        '' es)"
proof (cases "es = []")
  case True
  with assms have "sigs = []" by simp
  with True show ?thesis
    by (simp add: create_many_to_one_byte_sequence_def strip_def)
next
  case False
  from assms have "list_all solid es"
    by (induction sigs arbitrary: es)
       (auto simp add: map_eq_Cons_conv dest: internal_signature_element_solid)
  with False have s: "solid (py_join ''\<newline>        '' es)" by (simp add: py_join_solid)
  have "strip (replicate (length es) (CHR ''\<newline>'') @ py_join ''\<newline>        '' es @ ''\<newline>        '')
          = py_join ''\<newline>        '' es"
    using s by (rule strip_wrap) (simp_all add: list_all_iff)
  with many_to_one_loop_closed [OF assms, of "[]"] False show ?thesis
    by (simp add: create_many_to_one_byte_sequence_def concat_tail)
qed

lemma formats_loop_map:
  "map (\<lambda>fmt. create_many_to_one_byte_sequence (f_internal_signatures fmt))
      (filter (\<lambda>fmt. f_internal_signatures fmt \<noteq> []) formats) = map Inr new \<Longrightarrow>
     formats_loop formats isc ffc =
       Inr (isc @ new, ffc @ map create_file_format_collection formats)"
proof (induction formats arbitrary: isc ffc new)
  case Nil
  then show ?case by simp
next
  case (Cons f formats)
  show ?case
  proof (cases "f_internal_signatures f \<noteq> []")
    case True
    with Cons.prems obtain s new' where
      n: "new = s # new'" and
      c: "create_many_to_one_byte_sequence (f_internal_signatures f) = Inr s" and
      r: "map (\<lambda>fmt. create_many_to_one_byte_sequence (f_internal_signatures fmt))
            (filter (\<lambda>fmt. f_internal_signatures fmt \<noteq> []) formats) = map Inr new'"
      by (cases new) auto
    from Cons.IH [OF r, of "isc @ [s]" "ffc @ [create_file_format_collection f]"] True n c
    show ?thesis by simp
  next
    case False
    with Cons.prems have
      r: "map (\<lambda>fmt. create_many_to_one_byte_sequence (f_internal_signatures fmt))
            (filter (\<lambda>fmt. f_internal_signatures fmt \<noteq> []) formats) = map Inr new"
      by simp
    from Cons.IH [OF r, of isc "ffc @ [create_file_format_collection f]"] False
    show ?thesis by simp
  qed
qed

text \<open>
  Claim C8. Assembly keeps the order of its input everywhere. When the elements of the
  byte sequences of an internal signature are made without an exception, the text of
  \<^verbatim>\<open>create_one_to_many_byte_sequence\<close> is these elements, joined in the order of the
  byte sequences; likewise \<^verbatim>\<open>create_many_to_one_byte_sequence\<close> joins the elements of
  the internal signatures of a format in their order; and the document has the texts
  of the formats with internal signatures in the order of the formats, and one
  file-format entry for every format, in the order of the formats. Nothing is sorted
  and nothing is left out or merged.
\<close>

theorem assembly_preserves_order:
  "(map (\<lambda>fmt. create_many_to_one_byte_sequence (f_internal_signatures fmt))
      (filter (\<lambda>fmt. f_internal_signatures fmt \<noteq> []) formats) = map Inr isc \<longrightarrow>
     process_formats_and_save now formats =
       Inr (document_text now isc (map create_file_format_collection formats)))
   \<and> (map internal_signature_element sigs = map Inr ies \<longrightarrow>
        create_many_to_one_byte_sequence sigs = Inr (py_join ''\<newline>        '' ies))
   \<and> (map byte_sequence_element items = map Inr bes \<longrightarrow>
        create_one_to_many_byte_sequence items = Inr (py_join ''\<newline>    '' bes))"
  using formats_loop_map [of formats isc "[]" "[]"] create_many_to_one_closed [of sigs ies]
    create_one_to_many_closed [of items bes]
  by (simp add: process_formats_and_save_def document_text_def)

lemma sample_assembly:
  "map (\<lambda>fmt. create_many_to_one_byte_sequence (f_internal_signatures fmt))
      (filter (\<lambda>fmt. f_internal_signatures fmt \<noteq> []) (sample_formats None None))
     = map Inr [projr (create_many_to_one_byte_sequence (sample_signatures None))]"
  "map internal_signature_element (sample_signatures None)
     = map Inr (map (\<lambda>s. projr (internal_signature_element s)) (sample_signatures None))"
  "map byte_sequence_element [sample_bof None, sample_eof None]
     = map Inr [byte_sequence_tag (sample_bof None) ''04'',
                byte_sequence_tag (sample_eof None) ''FF{0-20}'']"
  by code_simp+

theorem assembly_preserves_order_witness:
  "map (\<lambda>fmt. create_many_to_one_byte_sequence (f_internal_signatures fmt))
      (filter (\<lambda>fmt. f_internal_signatures fmt \<noteq> []) (sample_formats None None))
     = map Inr [projr (create_many_to_one_byte_sequence (sample_signatures None))]
   \<and> process_formats_and_save ''2024-09-18T12:46:55Z'' (sample_formats None None) =
       Inr (document_text ''2024-09-18T12:46:55Z''
              [projr (create_many_to_one_byte_sequence (sample_signatures None))]
              (map create_file_format_collection (sample_formats None None)))
   \<and> map internal_signature_element (sample_signatures None)
     = map Inr (map (\<lambda>s. projr (internal_signature_element s)) (sample_signatures None))
   \<and> create_many_to_one_byte_sequence (sample_signatures None) =
       Inr (py_join ''\<newline>        ''
              (map (\<lambda>s. projr (internal_signature_element s)) (sample_signatures None)))
   \<and> map byte_sequence_element [sample_bof None, sample_eof None]
     = map Inr [byte_sequence_tag (sample_bof None) ''04'',
                byte_sequence_tag (sample_eof None) ''FF{0-20}'']
   \<and> create_one_to_many_byte_sequence [sample_bof None, sample_eof None] =
       Inr (py_join ''\<newline>    ''
              [byte_sequence_tag (sample_bof None) ''04'',
               byte_sequence_tag (sample_eof None) ''FF{0-20}''])"
  using assembly_preserves_order
    [of "sample_formats None None"
        "[projr (create_many_to_one_byte_sequence (sample_signatures None))]"
        "''2024-09-18T12:46:55Z''"
        "sample_signatures None"
        "map (\<lambda>s. projr (internal_signature_element s)) (sample_signatures None)"
        "[sample_bof None, sample_eof None]"
        "[byte_sequence_tag (sample_bof None) ''04'',
          byte_sequence_tag (sample_eof None) ''FF{0-20}'']"]
    sample_assembly
  by blast

subsection \<open>Fields that are not rendered\<close>

lemma encoded_sequence_erase: "encoded_sequence (erase_sequence b) = encoded_sequence b"
  by (simp add: encoded_sequence_def erase_sequence_def calculate_variable_off_bof_def
      calculate_variable_off_eof_def both_positive_def range_quantifier_def cong: if_cong)

lemma byte_sequence_tag_erase: "byte_sequence_tag (erase_sequence b) = byte_sequence_tag b"
  by (rule ext) (simp add: byte_sequence_tag_def erase_sequence_def)

lemma one_to_many_loop_erase:
  "one_to_many_loop (map erase_sequence bs) acc = one_to_many_loop bs acc"
  by (induction bs arbitrary: acc)
     (simp_all add: encoded_sequence_erase byte_sequence_tag_erase)

lemma create_one_to_many_erase:
  "create_one_to_many_byte_sequence (map erase_sequence bs) = create_one_to_many_byte_sequence bs"
  by (simp add: create_one_to_many_byte_sequence_def one_to_many_loop_erase)

lemma many_to_one_loop_erase:
  "many_to_one_loop (map erase_signature sigs) acc = many_to_one_loop sigs acc"
  by (induction sigs arbitrary: acc)
     (simp_all add: erase_signature_def create_one_to_many_erase)

lemma create_many_to_one_erase:
  "create_many_to_one_byte_sequence (map erase_signature sigs) = create_many_to_one_byte_sequence sigs"
  by (simp add: create_many_to_one_byte_sequence_def many_to_one_loop_erase)

lemma create_file_format_collection_erase:
  "create_file_format_collection (erase_format f) = create_file_format_collection f"
  by (simp add: create_file_format_collection_def erase_format_def internal_sigs_def
      external_sigs_def priorities_def erase_signature_def comp_def)

lemma formats_loop_erase:
  "formats_loop (map erase_format fs) isc ffc = formats_loop fs isc ffc"
proof (induction fs arbitrary: isc ffc)
  case Nil
  then show ?case by simp
next
  case (Cons f fs)
  have i: "f_internal_signatures (erase_format f) = map erase_signature (f_internal_signatures f)"
    by (simp add: erase_format_def)
  show ?case
    by (simp add: i create_many_to_one_erase create_file_format_collection_erase Cons.IH)
qed

lemma process_formats_and_save_erase:
  "process_formats_and_save now (map erase_format fs) = process_formats_and_save now fs"
  by (simp add: process_formats_and_save_def formats_loop_erase)

lemma elements_by_tag_blank_first:
  "elements_by_tag tag (blank_first t cs) = elements_by_tag tag cs"
  by (auto simp add: blank_first_def split: list.splits node.splits)

lemma elements_by_tag_blank:
  "elements_by_tag tag (map blank ns) = map blank (elements_by_tag tag ns)"
  by (induction tag ns rule: elements_by_tag.induct)
     (simp_all add: elements_by_tag_blank_first)

lemma getElementsByTagName_blank:
  "getElementsByTagName tag (blank n) = map blank (getElementsByTagName tag n)"
  by (cases n)
     (simp_all add: getElementsByTagName_def elements_by_tag_blank_first elements_by_tag_blank)

lemma elements_by_tag_tag:
  "e \<in> set (elements_by_tag tag ns) \<Longrightarrow> \<exists>cs. e = Element tag cs"
  by (induction tag ns rule: elements_by_tag.induct) (auto split: if_splits)

lemma nodeValue_blank: "nodeValue (blank c) = nodeValue c"
  by (cases c) simp_all

lemma childNodes_blank:
  "childNodes (blank (Element t cs)) =
     (case cs of
        [] \<Rightarrow> []
      | Text s # rest \<Rightarrow> Text (if unrendered_tag t then [] else s) # map blank rest
      | Element u ds # rest \<Rightarrow> blank (Element u ds) # map blank rest)"
proof (cases cs)
  case Nil
  then show ?thesis by (simp add: blank_first_def)
next
  case (Cons c rest)
  then show ?thesis by (cases c) (simp_all add: blank_first_def)
qed

lemma first_value_blank:
  assumes "\<not> unrendered_tag tag"
  shows "(case childNodes (blank (Element tag cs)) of
        [] \<Rightarrow> Inl AttributeError
      | c # _ \<Rightarrow> (case nodeValue c of None \<Rightarrow> Inl AttributeError
                                      | Some v \<Rightarrow> Inr (Some (strip v))))
     = (case cs of
        [] \<Rightarrow> Inl AttributeError
      | c # _ \<Rightarrow> (case nodeValue c of None \<Rightarrow> Inl AttributeError
                                      | Some v \<Rightarrow> Inr (Some (strip v))))"
proof (cases cs)
  case Nil
  then show ?thesis by (simp add: childNodes_blank del: blank.simps)
next
  case (Cons c rest)
  with assms show ?thesis
    by (cases c) (simp_all add: childNodes_blank nodeValue_blank del: blank.simps)
qed

lemma get_node_value_blank:
  assumes "\<not> unrendered_tag tag"
  shows "get_node_value tag (blank n) = get_node_value tag n"
proof (cases "getElementsByTagName tag n")
  case Nil
  then show ?thesis
    by (simp add: get_node_value_def node_value_try_def getElementsByTagName_blank)
next
  case (Cons e es)
  then have "e \<in> set (elements_by_tag tag (childNodes n))"
    by (simp add: getElementsByTagName_def)
  then obtain cs where e: "e = Element tag cs" using elements_by_tag_tag by blast
  from first_value_blank [OF assms, of cs] Cons e show ?thesis
    by (simp add: get_node_value_def node_value_try_def getElementsByTagName_blank)
qed

lemma get_node_value_blank_error:
  "(get_node_value tag (blank n) = Inl e) = (get_node_value tag n = Inl e)"
proof (cases "getElementsByTagName tag n")
  case Nil
  then show ?thesis
    by (simp add: get_node_value_def node_value_try_def getElementsByTagName_blank)
next
  case (Cons x xs)
  then have "x \<in> set (elements_by_tag tag (childNodes n))"
    by (simp add: getElementsByTagName_def)
  then obtain cs where x: "x = Element tag cs" using elements_by_tag_tag by blast
  show ?thesis
  proof (cases cs)
    case Nil
    with \<open>getElementsByTagName tag n = x # xs\<close> x show ?thesis
      by (simp add: get_node_value_def node_value_try_def getElementsByTagName_blank
          childNodes_blank del: blank.simps)
  next
    case (Cons c rest)
    with \<open>getElementsByTagName tag n = x # xs\<close> x show ?thesis
      by (cases c)
         (simp_all add: get_node_value_def node_value_try_def getElementsByTagName_blank
            childNodes_blank nodeValue_blank del: blank.simps)
  qed
qed

lemma lift_bindE_cong:
  "(\<And>v. map_sum id h (f v) = map_sum id h (g v)) \<Longrightarrow>
     map_sum id h (bindE r f) = map_sum id h (bindE r g)"
  by (cases r) simp_all

lemma lift_bindE_rel:
  assumes "\<And>e. (r = Inl e) = (r' = Inl e)"
    and "\<And>x y. map_sum id h (f x) = map_sum id h (f y)"
  shows "map_sum id h (bindE r f) = map_sum id h (bindE r' f)"
proof (cases r)
  case (Inl e)
  with assms(1) [of e] have "r' = Inl e" by simp
  with Inl show ?thesis by simp
next
  case (Inr x)
  have "\<And>e. r' \<noteq> Inl e" using assms(1) Inr by simp
  then obtain y where "r' = Inr y" by (cases r') auto
  with Inr assms(2) show ?thesis by simp
qed

lemma validate_sequence_erase:
  "map_sum id (apfst (map_option erase_sequence)) (validate_sequence i p mn mx e v)
     = map_sum id (apfst (map_option erase_sequence)) (validate_sequence i p mn mx e' v)"
  by (simp add: validate_sequence_def Let_def erase_sequence_def split: option.splits)

lemma rendered_tags [simp]:
  "\<not> unrendered_tag ''ByteSequenceID''" "\<not> unrendered_tag ''PositionType''"
  "\<not> unrendered_tag ''Offset''" "\<not> unrendered_tag ''MaxOffset''"
  "\<not> unrendered_tag ''IndirectOffsetLocation''" "\<not> unrendered_tag ''IndirectOffsetLength''"
  "\<not> unrendered_tag ''ByteSequenceValue''" "\<not> unrendered_tag ''SignatureID''"
  "\<not> unrendered_tag ''SignatureName''" "\<not> unrendered_tag ''SignatureNote''"
  "\<not> unrendered_tag ''ExternalSignatureID''" "\<not> unrendered_tag ''Signature''"
  "\<not> unrendered_tag ''SignatureType''" "\<not> unrendered_tag ''Identifier''"
  "\<not> unrendered_tag ''IdentifierType''" "\<not> unrendered_tag ''RelationshipType''"
  "\<not> unrendered_tag ''RelatedFormatID''" "\<not> unrendered_tag ''RelatedFormatName''"
  "\<not> unrendered_tag ''RelatedFormatVersion''" "\<not> unrendered_tag ''FormatID''"
  "\<not> unrendered_tag ''FormatName''" "\<not> unrendered_tag ''FormatVersion''"
  by (simp_all add: unrendered_tag_def)

lemma get_bytes_body_blank:
  "map_sum id (apfst (map_option erase_sequence)) (get_bytes_body (blank n))
     = map_sum id (apfst (map_option erase_sequence)) (get_bytes_body n)"
  unfolding get_bytes_body_def
  apply (simp only: get_node_value_blank rendered_tags not_False_eq_True)
  apply (intro lift_bindE_cong)
  apply (rule lift_bindE_rel)
   apply (rule get_node_value_blank_error)
  apply (intro lift_bindE_cong)
  apply (rule validate_sequence_erase)
  done

lemma Some_eq_map_option: "(Some y = map_option g a) = (\<exists>x. a = Some x \<and> y = g x)"
  by (cases a) auto

lemma None_eq_map_option: "(None = map_option g a) = (a = None)"
  by (cases a) auto

lemma loop_step_erase:
  assumes "map_sum id (apfst (map_option g)) r1 = map_sum id (apfst (map_option g)) r2"
    and "map_sum id (apfst (map g)) s1 = map_sum id (apfst (map g)) s2"
  shows "map_sum id (apfst (map g))
           (bindE r1 (\<lambda>(b, lg). bindE s1 (\<lambda>(xs, lgs).
              Inr ((case b of None \<Rightarrow> [] | Some x \<Rightarrow> [x]) @ xs, lg @ lgs))))
       = map_sum id (apfst (map g))
           (bindE r2 (\<lambda>(b, lg). bindE s2 (\<lambda>(xs, lgs).
              Inr ((case b of None \<Rightarrow> [] | Some x \<Rightarrow> [x]) @ xs, lg @ lgs))))"
  using assms
  by (cases r1; cases r2; cases s1; cases s2)
     (auto split: option.splits simp add: Some_eq_map_option None_eq_map_option)

lemma get_bytes_blank:
  "map_sum id (apfst (map erase_sequence)) (get_bytes (map blank ns))
     = map_sum id (apfst (map erase_sequence)) (get_bytes ns)"
proof (induction ns)
  case Nil
  show ?case by simp
next
  case (Cons n ns)
  show ?case
    unfolding list.map get_bytes.simps
    by (rule loop_step_erase [OF get_bytes_body_blank Cons.IH])
qed

lemma get_internal_body_blank:
  "map_sum id (apfst (map_option erase_signature)) (get_internal_body (blank n))
     = map_sum id (apfst (map_option erase_signature)) (get_internal_body n)"
proof -
  let ?X = "getElementsByTagName ''ByteSequence'' n"
  have "\<And>i m. map_sum id (apfst (map_option erase_signature))
          (case get_bytes (map blank ?X) of
             Inl e \<Rightarrow> (if e = IndexError then Inr (None, []) else Inl e)
           | Inr (sequences, lg) \<Rightarrow>
               Inr (Some \<lparr>is_id = i, is_name = m, is_byte_sequences = sequences\<rparr>, lg))
        = map_sum id (apfst (map_option erase_signature))
          (case get_bytes ?X of
             Inl e \<Rightarrow> (if e = IndexError then Inr (None, []) else Inl e)
           | Inr (sequences, lg) \<Rightarrow>
               Inr (Some \<lparr>is_id = i, is_name = m, is_byte_sequences = sequences\<rparr>, lg))"
    using get_bytes_blank [of ?X]
    by (cases "get_bytes (map blank ?X)"; cases "get_bytes ?X")
       (auto simp add: erase_signature_def)
  then show ?thesis
    unfolding get_internal_body_def
    by (simp only: get_node_value_blank rendered_tags not_False_eq_True
        getElementsByTagName_blank)
       (intro lift_bindE_cong)
qed

lemma get_internal_blank:
  "map_sum id (apfst (map erase_signature)) (get_internal (map blank ns))
     = map_sum id (apfst (map erase_signature)) (get_internal ns)"
proof (induction ns)
  case Nil
  show ?case by simp
next
  case (Cons n ns)
  show ?case
    unfolding list.map get_internal.simps
    by (rule loop_step_erase [OF get_internal_body_blank Cons.IH])
qed

lemma get_external_blank: "get_external (map blank ns) = get_external ns"
  by (induction ns) (simp_all add: get_external_body_def get_node_value_blank)

lemma get_identifiers_loop_blank:
  "get_identifiers_loop (map blank ns) pm = get_identifiers_loop ns pm"
  by (induction ns pm rule: get_identifiers_loop.induct)
     (simp_all add: get_node_value_blank cong: if_cong)

lemma get_priorities_blank: "get_priorities (map blank ns) = get_priorities ns"
  by (induction ns) (simp_all add: get_priorities_body_def get_node_value_blank cong: if_cong)

lemma map_erase_Nil: "map erase_signature a = map erase_signature b \<Longrightarrow> (a = []) = (b = [])"
  by (cases a; cases b) simp_all

lemma process_report_tail_erase:
  assumes "map erase_signature ints = map erase_signature ints'"
    and "\<And>e. (r = Inl e) = (r' = Inl e)"
  shows "map_sum id (apfst (map_option erase_format))
      (if ext = [] \<and> ints = [] then Inr (None, lg)
       else
         bindE r (\<lambda>format_types.
         bindE ps (\<lambda>priorities.
         bindE nm (\<lambda>name.
         bindE vs (\<lambda>version.
           Inr (Some \<lparr>f_id = fid, f_name = name, f_version = version, f_puid = puid,
                       f_mime = mime, f_classification = format_types,
                       f_external_signatures = ext,
                       f_internal_signatures = ints,
                       f_priorities = priorities\<rparr>,
                lg))))))
    = map_sum id (apfst (map_option erase_format))
      (if ext = [] \<and> ints' = [] then Inr (None, lg)
       else
         bindE r' (\<lambda>format_types.
         bindE ps (\<lambda>priorities.
         bindE nm (\<lambda>name.
         bindE vs (\<lambda>version.
           Inr (Some \<lparr>f_id = fid, f_name = name, f_version = version, f_puid = puid,
                       f_mime = mime, f_classification = format_types,
                       f_external_signatures = ext,
                       f_internal_signatures = ints',
                       f_priorities = priorities\<rparr>,
                lg))))))"
proof (cases "ext = [] \<and> ints = []")
  case True
  with map_erase_Nil [OF assms(1)] show ?thesis by simp
next
  case False
  with map_erase_Nil [OF assms(1)] have f: "\<not> (ext = [] \<and> ints' = [])" by simp
  have "map_sum id (apfst (map_option erase_format))
         (bindE r (\<lambda>format_types.
         bindE ps (\<lambda>priorities.
         bindE nm (\<lambda>name.
         bindE vs (\<lambda>version.
           Inr (Some \<lparr>f_id = fid, f_name = name, f_version = version, f_puid = puid,
                       f_mime = mime, f_classification = format_types,
                       f_external_signatures = ext,
                       f_internal_signatures = ints,
                       f_priorities = priorities\<rparr>,
                lg))))))
      = map_sum id (apfst (map_option erase_format))
         (bindE r' (\<lambda>format_types.
         bindE ps (\<lambda>priorities.
         bindE nm (\<lambda>name.
         bindE vs (\<lambda>version.
           Inr (Some \<lparr>f_id = fid, f_name = name, f_version = version, f_puid = puid,
                       f_mime = mime, f_classification = format_types,
                       f_external_signatures = ext,
                       f_internal_signatures = ints,
                       f_priorities = priorities\<rparr>,
                lg))))))"
    by (rule lift_bindE_rel [OF assms(2)]) (intro lift_bindE_cong, simp add: erase_format_def)
  also have "\<dots> = map_sum id (apfst (map_option erase_format))
         (bindE r' (\<lambda>format_types.
         bindE ps (\<lambda>priorities.
         bindE nm (\<lambda>name.
         bindE vs (\<lambda>version.
           Inr (Some \<lparr>f_id = fid, f_name = name, f_version = version, f_puid = puid,
                       f_mime = mime, f_classification = format_types,
                       f_external_signatures = ext,
                       f_internal_signatures = ints',
                       f_priorities = priorities\<rparr>,
                lg))))))"
    by (intro lift_bindE_cong) (simp add: erase_format_def assms(1))
  finally show ?thesis by (simp only: False f if_False)
qed

lemma process_report_blank:
  "map_sum id (apfst (map_option erase_format)) (process_report (blank doc))
     = map_sum id (apfst (map_option erase_format)) (process_report doc)"
proof -
  let ?I = "getElementsByTagName ''InternalSignature'' doc"
  have "\<And>F :: InternalSignature list \<times> log_record list \<Rightarrow> error + (Format option \<times> log_record list).
     \<And>G. (\<And>ints ints' lg. map erase_signature ints = map erase_signature ints' \<Longrightarrow>
         map_sum id (apfst (map_option erase_format)) (F (ints, lg))
           = map_sum id (apfst (map_option erase_format)) (G (ints', lg))) \<Longrightarrow>
       map_sum id (apfst (map_option erase_format)) (bindE (get_internal (map blank ?I)) F)
         = map_sum id (apfst (map_option erase_format)) (bindE (get_internal ?I) G)"
    using get_internal_blank [of ?I]
    by (cases "get_internal (map blank ?I)"; cases "get_internal ?I") auto
  note step = this
  show ?thesis
    unfolding process_report_def
    apply (simp only: get_node_value_blank rendered_tags not_False_eq_True
        getElementsByTagName_blank get_external_blank get_priorities_blank
        get_identifiers_def get_identifiers_loop_blank)
    apply (intro lift_bindE_cong)
    apply (rule step)
    apply (simp only: prod.case)
    apply (intro lift_bindE_cong)
    apply (simp only: split_beta)
    apply (rule process_report_tail_erase)
     apply assumption
    apply (rule get_node_value_blank_error)
    done
qed

lemma collect_formats_blank:
  "map_sum id (apfst (map erase_format)) (collect_formats (map blank docs))
     = map_sum id (apfst (map erase_format)) (collect_formats docs)"
proof (induction docs)
  case Nil
  show ?case by simp
next
  case (Cons d docs)
  show ?case
    unfolding list.map collect_formats.simps
    by (rule loop_step_erase [OF process_report_blank Cons.IH])
qed

lemma save_erased:
  fixes r r' :: "error + (Format list \<times> log_record list)"
  assumes a: "map_sum id (apfst (map erase_format)) r = map_sum id (apfst (map erase_format)) r'"
  shows "bindE r (\<lambda>(formats, lg).
           bindE (process_formats_and_save now formats) (\<lambda>text. Inr (text, lg)))
       = bindE r' (\<lambda>(formats, lg).
           bindE (process_formats_and_save now formats) (\<lambda>text. Inr (text, lg)))"
proof (cases r)
  case (Inl e)
  with a show ?thesis by (cases r') auto
next
  case (Inr x)
  with a obtain y where y: "r' = Inr y" by (cases r') auto
  obtain fs lg where x: "x = (fs, lg)" by (cases x)
  obtain fs' lg' where y': "y = (fs', lg')" by (cases y)
  from a Inr y x y' have e: "map erase_format fs = map erase_format fs'" and l: "lg = lg'"
    by auto
  have "process_formats_and_save now fs = process_formats_and_save now (map erase_format fs)"
    by (simp add: process_formats_and_save_erase)
  also have "\<dots> = process_formats_and_save now fs'"
    by (simp add: e process_formats_and_save_erase)
  finally show ?thesis using Inr y x y' l by simp
qed

lemma process_pronom_blank: "process_pronom now (map blank docs) = process_pronom now docs"
  unfolding process_pronom_def by (rule save_erased [OF collect_formats_blank])

text \<open>
  Claim C10. The document does not depend on the endianness of a byte sequence or on
  the classification of a format. Two lists of reports that differ only in the values
  of their \<^verbatim>\<open>Endianness\<close> and \<^verbatim>\<open>FormatTypes\<close> elements give the same run of the
  pipeline: the same document and the same messages, or the same exception. Two lists
  of format records that differ only in these two fields give the same document.
\<close>

theorem unrendered_fields_do_not_matter:
  "(map blank docs1 = map blank docs2 \<longrightarrow>
      process_pronom now docs1 = process_pronom now docs2)
   \<and> (map erase_format fs1 = map erase_format fs2 \<longrightarrow>
      process_formats_and_save now fs1 = process_formats_and_save now fs2)"
proof (intro conjI impI)
  assume "map blank docs1 = map blank docs2"
  then have "process_pronom now (map blank docs1) = process_pronom now (map blank docs2)"
    by simp
  then show "process_pronom now docs1 = process_pronom now docs2"
    by (simp only: process_pronom_blank)
next
  assume "map erase_format fs1 = map erase_format fs2"
  then have "process_formats_and_save now (map erase_format fs1)
               = process_formats_and_save now (map erase_format fs2)"
    by simp
  then show "process_formats_and_save now fs1 = process_formats_and_save now fs2"
    by (simp only: process_formats_and_save_erase)
qed

lemma sample_variants:
  "map blank [report_internal ''04'', report_external]
     = map blank [report_internal_other, report_external]"
  "report_internal ''04'' \<noteq> report_internal_other"
  "map erase_format (sample_formats (Some ''Text (Structured)'') (Some ''Little-endian''))
     = map erase_format (sample_formats None (Some ''Big-endian''))"
  "\<not> isl (process_pronom ''2024-09-18T12:46:55Z'' [report_internal ''04'', report_external])"
  "\<not> isl (process_formats_and_save ''2024-09-18T12:46:55Z''
            (sample_formats None (Some ''Big-endian'')))"
  by code_simp+

theorem unrendered_fields_do_not_matter_witness:
  "map blank [report_internal ''04'', report_external]
     = map blank [report_internal_other, report_external]
   \<and> report_internal ''04'' \<noteq> report_internal_other
   \<and> process_pronom ''2024-09-18T12:46:55Z'' [report_internal ''04'', report_external]
     = process_pronom ''2024-09-18T12:46:55Z'' [report_internal_other, report_external]
   \<and> \<not> isl (process_pronom ''2024-09-18T12:46:55Z'' [report_internal ''04'', report_external])
   \<and> map erase_format (sample_formats (Some ''Text (Structured)'') (Some ''Little-endian''))
     = map erase_format (sample_formats None (Some ''Big-endian''))
   \<and> process_formats_and_save ''2024-09-18T12:46:55Z''
       (sample_formats (Some ''Text (Structured)'') (Some ''Little-endian''))
     = process_formats_and_save ''2024-09-18T12:46:55Z''
       (sample_formats None (Some ''Big-endian''))
   \<and> \<not> isl (process_formats_and_save ''2024-09-18T12:46:55Z''
            (sample_formats None (Some ''Big-endian'')))"
  using unrendered_fields_do_not_matter
    [of "[report_internal ''04'', report_external]"
        "[report_internal_other, report_external]"
        "''2024-09-18T12:46:55Z''"
        "sample_formats (Some ''Text (Structured)'') (Some ''Little-endian'')"
        "sample_formats None (Some ''Big-endian'')"]
    sample_variants
  by blast

end
